theory Spec2Isabelle
  imports Complex_Main
begin

section \<open>Data model\<close>

text \<open>
  A shallow embedding of the time driver \<^verbatim>\<open>PlumeModel\<close> of
  \<^verbatim>\<open>src/Core/PlumeModel.cpp\<close>. A C++ \<^verbatim>\<open>double\<close> is modelled as a
  \<^typ>\<open>real\<close>: rounding is outside the model, every identity below is an identity of
  exact arithmetic. An \<^verbatim>\<open>unsigned int\<close> that counts or indexes is a \<^typ>\<open>nat\<close>.
  Console output, the stopwatches and the debug dumps are not modelled.
\<close>

type_synonym Real_1DVector = "real list"
type_synonym Real_2DVector = "real list list"

text \<open>A field is read and written as \<^verbatim>\<open>f[jNy][iNx]\<close>.\<close>

definition get2D :: "Real_2DVector \<Rightarrow> nat \<Rightarrow> nat \<Rightarrow> real" where
  "get2D f jNy iNx = f ! jNy ! iNx"

definition set2D :: "Real_2DVector \<Rightarrow> nat \<Rightarrow> nat \<Rightarrow> real \<Rightarrow> Real_2DVector" where
  "set2D f jNy iNx v = f[jNy := (f ! jNy)[iNx := v]]"


text \<open>
  The species of the solution that the driver names itself: the three sulfate fields, CO2
  and the members of NOy. The other species are touched only by routines outside this file.
\<close>

datatype species =
    SO4 | SO4L | SO4T | CO2
  | NO | NO2 | NO3 | HNO2 | HNO3 | HNO4 | N2O5 | PAN | MPN | N | PROPNN
  | BrNO2 | BrNO3 | ClNO2 | ClNO3 | PPN | PRPN | R4N1 | PRN1 | R4N2 | N2O

text \<open>\<^verbatim>\<open>AIM::Aerosol\<close>: a size distribution over bins, as the early-plume model returns it.\<close>

record Aerosol =
  bin_Centers :: Real_1DVector
  bin_pdf :: Real_1DVector

text \<open>The aerosol of the grid: one field per bin.\<close>

record Grid_Aerosol =
  BinCenters :: Real_1DVector
  pdf :: "Real_2DVector list"

record Solution =
  spc :: "species \<Rightarrow> Real_2DVector"
  sootDens :: Real_2DVector
  sootRadi :: Real_2DVector
  sootArea :: Real_2DVector
  liquidAerosol :: Grid_Aerosol
  solidAerosol :: Grid_Aerosol
  nBin_LA :: nat
  nBin_PA :: nat
  LA_nDens :: real
  PA_nDens :: real
  LA_Kernel :: Real_2DVector
  PA_Kernel :: Real_2DVector
  STATE_PSC :: nat

record Ambient =
  amb :: "species \<Rightarrow> Real_1DVector"
  cosSZA :: Real_1DVector

text \<open>\<^verbatim>\<open>SpeciesArray\<close>: per species, a value for every time index and ring.\<close>

record SpeciesArray =
  rspc :: "species \<Rightarrow> Real_2DVector"

record SZA =
  sunRise :: real
  sunSet :: real
  CSZA :: real
  CSZA_max :: real

record Mesh =
  getAreas :: Real_2DVector
  getX :: Real_1DVector
  getY :: Real_1DVector
  getList :: "(nat \<times> nat) list list"

record Meteorology =
  temp :: Real_2DVector
  press :: Real_1DVector

record Aircraft =
  getEngNumber :: nat
  getVortexdeltaz1 :: real
  getFuelFlow :: real
  getVFlight :: real

record Emission =
  getCO2 :: real
  getCO :: real
  getCH4 :: real
  getNO :: real
  getNO2 :: real
  getHNO2 :: real
  getSO2 :: real
  getSoot :: real
  getSootRad :: real

record Cluster =
  getnRing :: nat
  halfRing :: bool
  getRingArea :: Real_1DVector

text \<open>
  Modelled from the spec: the class \<^verbatim>\<open>Solver\<close> (SANDS/Solver.hpp) is not under src/. A
  solver is the configuration that one solve uses: the negative-value refill, the time
  step, the diagonal diffusion and the uniform advection velocity. The plans of the
  transform are not modelled.
\<close>

record Solver =
  fillNegValues :: bool
  fillWith :: real
  s_dt :: real
  s_dx :: real
  s_dy :: real
  s_vx :: real
  s_vy :: real

definition UpdateTimeStep :: "Solver \<Rightarrow> real \<Rightarrow> Solver" where
  "UpdateTimeStep s t = s\<lparr>s_dt := t\<rparr>"

definition UpdateDiff :: "Solver \<Rightarrow> real \<Rightarrow> real \<Rightarrow> Solver" where
  "UpdateDiff s dx dy = s\<lparr>s_dx := dx, s_dy := dy\<rparr>"

definition UpdateAdv :: "Solver \<Rightarrow> real \<Rightarrow> real \<Rightarrow> Solver" where
  "UpdateAdv s vx vy = s\<lparr>s_vx := vx, s_vy := vy\<rparr>"

text \<open>
  Modelled from the spec: \<^verbatim>\<open>AIM::Aerosol::scalePdf\<close> is not under src/. The size
  distribution is multiplied by the factor, bin by bin.
\<close>

definition scalePdf :: "Aerosol \<Rightarrow> real \<Rightarrow> Aerosol" where
  "scalePdf a factor = a\<lparr>bin_pdf := map (\<lambda>x. x * factor) (bin_pdf a)\<rparr>"

text \<open>The outputs of \<^verbatim>\<open>EPM::Integrate\<close>, which the driver declares as locals.\<close>

record EPM_out =
  Ice_rad :: real
  Ice_den :: real
  Soot_den :: real
  H2O_mol :: real
  SO4g_mol :: real
  SO4l_mol :: real
  liquidAer :: Aerosol
  iceAer :: Aerosol
  areaPlume :: real

section \<open>What the driver takes from outside this file\<close>

text \<open>
  The macros of \<^verbatim>\<open>Core/Parameters.hpp\<close> and \<^verbatim>\<open>KPP/KPP_Parameters.h\<close>, which are not
  under src/, are parameters of the model.
\<close>

record config =
  NX :: nat
  NY :: nat
  NRING :: nat
  NVAR :: nat
  NSPEC :: nat
  NREACT :: nat
  NPHOTOL :: nat
  TSIMUL :: real
  LOAD_MET :: bool
  RINGS :: bool
  DIFFUSION :: bool
  ADVECTION :: bool
  CHEMISTRY :: bool
  HETCHEMISTRY :: bool
  LIQ_MICROPHYSICS :: bool
  ICE_MICROPHYSICS :: bool
  LIQCOAG_TSTEP :: real
  ICECOAG_TSTEP :: real
  KPP_RTOLS :: real
  KPP_ATOLS :: real
  NOy_MASS_CHECK :: bool
  CO2_MASS_CHECK :: bool
  SAVE_OUTPUT :: bool
  SAVE_LA_MICROPHYS :: bool
  SAVE_PA_MICROPHYS :: bool
  SAVE_LA_DT :: real
  SAVE_PA_DT :: real
  ind_H2O :: nat
  OUT_FILE_LA :: string
  OUT_FILE_PA :: string

text \<open>
  The routines that the driver calls and that are not under src/ are parameters too. A
  routine that writes through a reference or an array argument takes the old value and
  returns the new one. The routines of KPP read and write the global arrays
  \<^verbatim>\<open>PHOTOL\<close>, \<^verbatim>\<open>HET\<close> and \<^verbatim>\<open>RCONST\<close>, which are passed explicitly. The
  file names and the scalars that only label the input and the output (\<^verbatim>\<open>AMBFILE\<close>,
  the conditions written next to the saved fields) are left out.
\<close>

record extern =
  pSat_H2Ol :: "real \<Rightarrow> real"
  pSat_H2Os :: "real \<Rightarrow> real"
  physConst_kB :: real
  physConst_PI :: real
  SZA_ctor :: "real \<Rightarrow> nat \<Rightarrow> SZA"
  SZA_Update :: "SZA \<Rightarrow> real \<Rightarrow> SZA"
  Mesh_ctor :: Mesh
  Mesh_Ring2Mesh :: "Mesh \<Rightarrow> Cluster \<Rightarrow> Mesh"
  BuildTime :: "real \<Rightarrow> real \<Rightarrow> real \<Rightarrow> real \<Rightarrow> Real_1DVector"
  UpdateTime :: "real \<Rightarrow> real \<Rightarrow> real \<Rightarrow> real \<Rightarrow> real"
  DiffParam :: "real \<Rightarrow> real \<times> real \<Rightarrow> real \<times> real"
  AdvGlobal :: "real \<Rightarrow> real \<times> real \<times> real \<times> real \<Rightarrow> real \<times> real \<times> real \<times> real"
  Transport :: "Solution \<Rightarrow> Solver \<Rightarrow> Solution"
  Solver_ctor :: "bool \<Rightarrow> real \<Rightarrow> Solver"
  Solve :: "Solver \<Rightarrow> Real_2DVector \<Rightarrow> Real_2DVector"
  Meteorology_ctor :: "bool \<Rightarrow> Mesh \<Rightarrow> real \<Rightarrow> real \<Rightarrow> real \<Rightarrow> Meteorology"
  Solution_Initialize :: "real \<Rightarrow> real \<Rightarrow> real \<Rightarrow> real \<Rightarrow> real \<Rightarrow> Meteorology \<Rightarrow> Solution"
  Ambient_ctor :: "nat \<Rightarrow> Solution \<Rightarrow> Ambient"
  Ambient_getData :: "Ambient \<Rightarrow> Real_1DVector \<times> Real_1DVector \<times> Real_2DVector \<Rightarrow> nat
                      \<Rightarrow> Real_1DVector \<times> Real_1DVector \<times> Real_2DVector"
  Ambient_FillIn :: "Ambient \<Rightarrow> Real_1DVector \<Rightarrow> nat \<Rightarrow> Ambient"
  Aircraft_ctor :: "string \<Rightarrow> real \<Rightarrow> real \<Rightarrow> real \<Rightarrow> Aircraft"
  Emission_ctor :: "Aircraft \<Rightarrow> string \<Rightarrow> Emission"
  EPM_Integrate :: "real \<Rightarrow> real \<Rightarrow> real \<Rightarrow> Real_1DVector \<Rightarrow> Real_1DVector \<Rightarrow> Real_2DVector
                    \<Rightarrow> Aircraft \<Rightarrow> Emission \<Rightarrow> EPM_out"
  Moment :: "Aerosol \<Rightarrow> real"
  SettlingVelocity :: "Real_1DVector \<Rightarrow> real \<Rightarrow> real \<Rightarrow> Real_1DVector"
  Cluster_ctor :: "nat \<Rightarrow> bool \<Rightarrow> real \<Rightarrow> real \<Rightarrow> real \<Rightarrow> real \<Rightarrow> Cluster"
  ComputeRingAreas :: "Cluster \<Rightarrow> Real_2DVector \<Rightarrow> (nat \<times> nat) list list \<Rightarrow> Cluster"
  SpeciesArray_ctor :: "nat \<Rightarrow> nat \<Rightarrow> bool \<Rightarrow> SpeciesArray"
  SpeciesArray_FillIn :: "SpeciesArray \<Rightarrow> Solution \<Rightarrow> Mesh \<Rightarrow> nat \<Rightarrow> SpeciesArray"
  SpeciesArray_FillIn_ring :: "SpeciesArray \<Rightarrow> Real_1DVector \<Rightarrow> nat \<Rightarrow> nat \<Rightarrow> SpeciesArray"
  SpeciesArray_getData :: "SpeciesArray \<Rightarrow> Real_1DVector \<times> Real_1DVector \<Rightarrow> nat \<Rightarrow> nat
                           \<Rightarrow> Real_1DVector \<times> Real_1DVector"
  addEmission :: "Solution \<Rightarrow> Emission \<Rightarrow> Aircraft \<Rightarrow> (nat \<times> nat) list list \<Rightarrow> Real_2DVector
                  \<Rightarrow> bool \<Rightarrow> real \<Rightarrow> bool \<Rightarrow> Aerosol \<Rightarrow> Aerosol \<Rightarrow> real \<Rightarrow> Solution"
  getAerosolProp :: "Solution \<Rightarrow> Real_1DVector \<times> Real_1DVector \<times> real \<Rightarrow> (nat \<times> nat) list
                     \<Rightarrow> Real_1DVector \<times> Real_1DVector \<times> real"
  applyRing :: "Solution \<Rightarrow> Real_1DVector \<Rightarrow> Real_1DVector \<Rightarrow> (nat \<times> nat) list list \<Rightarrow> nat
                \<Rightarrow> Solution"
  applyAmbient :: "Solution \<Rightarrow> Real_1DVector \<Rightarrow> (nat \<times> nat) list list \<Rightarrow> nat \<Rightarrow> Solution"
  getData :: "Solution \<Rightarrow> Real_1DVector \<times> Real_1DVector \<Rightarrow> nat \<Rightarrow> nat
              \<Rightarrow> Real_1DVector \<times> Real_1DVector"
  applyData :: "Solution \<Rightarrow> Real_1DVector \<Rightarrow> nat \<Rightarrow> nat \<Rightarrow> Solution"
  H2SO4_GASFRAC :: "real \<Rightarrow> real \<Rightarrow> real"
  Read_JRates :: "Real_1DVector \<Rightarrow> real \<Rightarrow> Real_1DVector"
  GC_SETHET :: "real \<Rightarrow> real \<Rightarrow> real \<Rightarrow> real \<Rightarrow> nat \<Rightarrow> Real_1DVector \<Rightarrow> Real_1DVector
                \<Rightarrow> Real_1DVector \<Rightarrow> real \<Rightarrow> Real_1DVector \<Rightarrow> Real_2DVector \<Rightarrow> Real_2DVector"
  Update_RCONST :: "real \<Rightarrow> real \<Rightarrow> real \<Rightarrow> real \<Rightarrow> Real_1DVector \<Rightarrow> Real_2DVector
                    \<Rightarrow> Real_1DVector \<Rightarrow> Real_1DVector"
  KPP_Main :: "Real_1DVector \<Rightarrow> Real_1DVector \<Rightarrow> real \<Rightarrow> real \<Rightarrow> real \<Rightarrow> real \<Rightarrow> Real_1DVector
               \<Rightarrow> int \<times> Real_1DVector \<times> Real_1DVector"
  Coagulate :: "Grid_Aerosol \<Rightarrow> real \<Rightarrow> Real_2DVector \<Rightarrow> nat \<Rightarrow> nat \<Rightarrow> Grid_Aerosol"
  output_Write :: "SpeciesArray \<Rightarrow> Ambient \<Rightarrow> Cluster \<Rightarrow> Real_1DVector \<Rightarrow> int"
  output_Write_MicroPhys :: "string \<Rightarrow> Real_2DVector list list \<Rightarrow> Real_1DVector \<Rightarrow> Real_1DVector
                             \<Rightarrow> int"
  output_SAVE_FAILURE :: int

section \<open>The state of the driver\<close>

text \<open>
  The calls that the driver makes to the transport solvers, the photolysis table, the
  chemistry integrator and the coagulation are recorded in the order they are made, the
  latest first. An entry holds what the call was given: the solver as it was configured,
  the site and the status that \<^verbatim>\<open>KPP_Main\<close> returned, the time of a coagulation, its
  time step, its microphysics level and its symmetry argument.
\<close>

datatype target = Soot_Dens | Soot_Radi | Soot_Area | LA_pdf nat | PA_pdf nat

datatype site = In_Ring nat | In_Cell nat nat | In_Ambient

datatype call =
    Begin_Step nat real
  | Call_Transport Solver
  | Call_Solve Solver target
  | Call_Read_JRates real
  | Call_KPP_Main site int
  | Call_Coagulate_LA real real nat nat
  | Call_Coagulate_PA real real nat nat

text \<open>What \<^verbatim>\<open>PlumeModel\<close> computes once, before the time loop, and only reads afterwards.\<close>

record prep =
  temperature_K :: real
  pressure_Pa :: real
  relHumidity_w :: real
  longitude_deg :: real
  latitude_deg :: real
  relHumidity_i :: real
  airDens :: real
  tInitial_s :: real
  tFinal_s :: real
  timeArray :: Real_1DVector
  mesh :: Mesh
  cellAreas :: Real_2DVector
  Met :: Meteorology
  aircraft :: Aircraft
  EI :: Emission
  epm :: EPM_out
  semiXaxis :: real
  semiYaxis :: real
  LA_MICROPHYSICS :: nat
  PA_MICROPHYSICS :: nat
  TRANSPORT_LA :: bool
  TRANSPORT_PA :: bool
  vFall :: Real_1DVector
  ringCluster :: Cluster
  nRing :: nat
  mapRing2Mesh :: "(nat \<times> nat) list list"
  ringArea :: Real_1DVector

text \<open>The variables that the time loop reads and writes.\<close>

record state =
  curr_Time_s :: real
  dt :: real
  nTime :: nat
  iNx :: nat
  jNy :: nat
  LAST_STEP :: bool
  ITS_TIME_FOR_LIQ_COAGULATION :: bool
  lastTimeLiqCoag :: real
  dtLiqCoag :: real
  ITS_TIME_FOR_ICE_COAGULATION :: bool
  lastTimeIceCoag :: real
  dtIceCoag :: real
  sun :: SZA
  Data :: Solution
  ambientData :: Ambient
  ringSpecies :: SpeciesArray
  SANDS_GasPhase :: Solver
  SANDS_MicroPhys :: Solver
  d_x :: real
  d_y :: real
  vGlob_x :: real
  vGlob_y :: real
  dTrav_x :: real
  dTrav_y :: real
  varArray :: Real_1DVector
  fixArray :: Real_1DVector
  aerArray :: Real_2DVector
  tempArray :: Real_1DVector
  frac_gSO4 :: real
  AerosolArea :: Real_1DVector
  AerosolRadi :: Real_1DVector
  IWC :: real
  kheti_sla :: Real_1DVector
  relHumidity_Ring :: real
  PHOTOL :: Real_1DVector
  HET :: Real_2DVector
  RCONST :: Real_1DVector
  IERR :: int
  mass_Ambient_NOy :: real
  mass_Emitted_NOy :: real
  mass_Emitted_NOy_Rings :: real
  mass_Ambient_CO2 :: real
  mass_Emitted_CO2 :: real
  mass_Emitted_CO2_Rings :: real
  saveTime_LA :: Real_1DVector
  saveOutput_LA :: "Real_2DVector list list"
  saveTime_PA :: Real_1DVector
  saveOutput_PA :: "Real_2DVector list list"
  calls :: "call list"

definition SUCCESS :: int where "SUCCESS = 1"
definition KPP_FAIL :: int where "KPP_FAIL = - 1"
definition SAVE_FAIL :: int where "SAVE_FAIL = - 2"

section \<open>Loops\<close>

text \<open>
  The cells in the order of \<^verbatim>\<open>for (iNx ...) for (jNy ...)\<close>, and the values of the two
  counters once the loops are done.
\<close>

definition cells :: "nat \<Rightarrow> nat \<Rightarrow> (nat \<times> nat) list" where
  "cells nx ny = concat (map (\<lambda>i. map (\<lambda>j. (i, j)) [0..<ny]) [0..<nx])"

definition counters_after :: "config \<Rightarrow> state \<Rightarrow> state" where
  "counters_after c st = st\<lparr>iNx := NX c, jNy := (if NX c = 0 then jNy st else NY c)\<rparr>"

text \<open>\<^verbatim>\<open>for (i = 0; i < n; i++) xs[i] = 0.0E+00;\<close>\<close>

definition clear_n :: "nat \<Rightarrow> Real_1DVector \<Rightarrow> Real_1DVector" where
  "clear_n n xs = fold (\<lambda>i ys. ys[i := 0]) [0..<n] xs"

text \<open>\<^verbatim>\<open>for (i = 0; i < n; i++) dst[i] = src[i];\<close>\<close>

definition copy_n :: "nat \<Rightarrow> Real_1DVector \<Rightarrow> Real_1DVector \<Rightarrow> Real_1DVector" where
  "copy_n n src dst = fold (\<lambda>i ys. ys[i := src ! i]) [0..<n] dst"

text \<open>The three entries of every row of \<^verbatim>\<open>HET\<close> are cleared.\<close>

definition clear_HET :: "nat \<Rightarrow> Real_2DVector \<Rightarrow> Real_2DVector" where
  "clear_HET n h = fold (\<lambda>i g. set2D (set2D (set2D g i 0 0) i 1 0) i 2 0) [0..<n] h"

text \<open>A loop whose body can return from the driver: the first failure ends it.\<close>

fun loop_until_fail :: "('i \<Rightarrow> 's \<Rightarrow> 's + 's) \<Rightarrow> 'i list \<Rightarrow> 's \<Rightarrow> 's + 's" where
  "loop_until_fail body [] st = Inr st"
| "loop_until_fail body (i # is) st =
     (case body i st of Inl failed \<Rightarrow> Inl failed | Inr st' \<Rightarrow> loop_until_fail body is st')"

section \<open>One time step, section by section\<close>

subsection \<open>Update Time Step\<close>

definition update_time_step :: "config \<Rightarrow> extern \<Rightarrow> prep \<Rightarrow> state \<Rightarrow> state" where
  "update_time_step c x su st =
     (let t = UpdateTime x (curr_Time_s st) (tInitial_s su)
                (3600 * sunRise (sun st)) (3600 * sunSet (sun st))
      in st\<lparr>dt := t,
            LAST_STEP := (curr_Time_s st + t \<ge> tFinal_s su),
            SANDS_GasPhase := UpdateTimeStep (SANDS_GasPhase st) t,
            SANDS_MicroPhys := UpdateTimeStep (SANDS_MicroPhys st) t,
            calls := Begin_Step (nTime st) (curr_Time_s st) # calls st\<rparr>)"

subsection \<open>Advection and diffusion parameters\<close>

definition update_diffusion :: "config \<Rightarrow> extern \<Rightarrow> prep \<Rightarrow> state \<Rightarrow> state" where
  "update_diffusion c x su st =
     (if DIFFUSION c
      then (case DiffParam x (curr_Time_s st - tInitial_s su) (d_x st, d_y st) of
              (dx, dy) \<Rightarrow> st\<lparr>d_x := dx, d_y := dy\<rparr>)
      else st\<lparr>d_x := 0, d_y := 0\<rparr>)"

definition update_advection :: "config \<Rightarrow> extern \<Rightarrow> prep \<Rightarrow> state \<Rightarrow> state" where
  "update_advection c x su st =
     (if ADVECTION c
      then (case AdvGlobal x (curr_Time_s st - tInitial_s su)
                   (vGlob_x st, vGlob_y st, dTrav_x st, dTrav_y st) of
              (vx, vy, tx, ty) \<Rightarrow>
                st\<lparr>vGlob_x := vx, vGlob_y := vy, dTrav_x := tx, dTrav_y := ty\<rparr>)
      else st\<lparr>vGlob_x := 0, vGlob_y := 0\<rparr>)"

text \<open>
  The solvers take the diffusion coefficients; the gas-phase solver takes the velocity
  \<open>(0, 0)\<close>, not the one of \<^verbatim>\<open>AdvGlobal\<close> ("Assume no plume advection").
\<close>

definition update_solvers :: "state \<Rightarrow> state" where
  "update_solvers st =
     st\<lparr>SANDS_GasPhase := UpdateAdv (UpdateDiff (SANDS_GasPhase st) (d_x st) (d_y st)) 0 0,
        SANDS_MicroPhys := UpdateDiff (SANDS_MicroPhys st) (d_x st) (d_y st)\<rparr>"

subsection \<open>SANDS\<close>

text \<open>\<^verbatim>\<open>Transport( Data, SANDS_GasPhase )\<close>\<close>

definition transport_gas :: "extern \<Rightarrow> state \<Rightarrow> state" where
  "transport_gas x st =
     st\<lparr>Data := Transport x (Data st) (SANDS_GasPhase st),
        calls := Call_Transport (SANDS_GasPhase st) # calls st\<rparr>"

text \<open>The three soot fields, after the velocity of the microphysics solver is set to zero.\<close>

definition transport_soot :: "extern \<Rightarrow> state \<Rightarrow> state" where
  "transport_soot x st =
     (let st0 = st\<lparr>SANDS_MicroPhys := UpdateAdv (SANDS_MicroPhys st) 0 0\<rparr>;
          s = SANDS_MicroPhys st0;
          st1 = st0\<lparr>Data := (Data st0)\<lparr>sootDens := Solve x s (sootDens (Data st0))\<rparr>,
                    calls := Call_Solve s Soot_Dens # calls st0\<rparr>;
          st2 = st1\<lparr>Data := (Data st1)\<lparr>sootRadi := Solve x s (sootRadi (Data st1))\<rparr>,
                    calls := Call_Solve s Soot_Radi # calls st1\<rparr>;
          st3 = st2\<lparr>Data := (Data st2)\<lparr>sootArea := Solve x s (sootArea (Data st2))\<rparr>,
                    calls := Call_Solve s Soot_Area # calls st2\<rparr>
      in st3)"

text \<open>One bin of the liquid aerosol: \<^verbatim>\<open>SANDS_MicroPhys.Solve( Data.liquidAerosol.pdf[iBin_LA] )\<close>\<close>

definition transport_LA_bin :: "extern \<Rightarrow> nat \<Rightarrow> state \<Rightarrow> state" where
  "transport_LA_bin x iBin_LA st =
     (let s = SANDS_MicroPhys st; la = liquidAerosol (Data st)
      in st\<lparr>Data := (Data st)\<lparr>liquidAerosol :=
                la\<lparr>pdf := (pdf la)[iBin_LA := Solve x s (pdf la ! iBin_LA)]\<rparr>\<rparr>,
            calls := Call_Solve s (LA_pdf iBin_LA) # calls st\<rparr>)"

text \<open>One bin of the solid aerosol, with the settling velocity of the bin.\<close>

definition transport_PA_bin :: "extern \<Rightarrow> prep \<Rightarrow> nat \<Rightarrow> state \<Rightarrow> state" where
  "transport_PA_bin x su iBin_PA st =
     (let st0 = st\<lparr>SANDS_MicroPhys := UpdateAdv (SANDS_MicroPhys st) 0 (vFall su ! iBin_PA)\<rparr>;
          s = SANDS_MicroPhys st0; pa = solidAerosol (Data st0)
      in st0\<lparr>Data := (Data st0)\<lparr>solidAerosol :=
                 pa\<lparr>pdf := (pdf pa)[iBin_PA := Solve x s (pdf pa ! iBin_PA)]\<rparr>\<rparr>,
             calls := Call_Solve s (PA_pdf iBin_PA) # calls st0\<rparr>)"

definition transport_LA :: "extern \<Rightarrow> prep \<Rightarrow> state \<Rightarrow> state" where
  "transport_LA x su st =
     (if TRANSPORT_LA su
      then fold (transport_LA_bin x) [0..<nBin_LA (Data st)] st
      else st)"

definition transport_PA :: "extern \<Rightarrow> prep \<Rightarrow> state \<Rightarrow> state" where
  "transport_PA x su st =
     (if TRANSPORT_PA su
      then fold (transport_PA_bin x su) [0..<nBin_PA (Data st)] st
      else st)"

text \<open>The section is compiled in under \<^verbatim>\<open>#if ( DIFFUSION || ADVECTION )\<close>.\<close>

definition SANDS :: "config \<Rightarrow> extern \<Rightarrow> prep \<Rightarrow> state \<Rightarrow> state" where
  "SANDS c x su st =
     (if DIFFUSION c \<or> ADVECTION c
      then transport_PA x su (transport_LA x su (transport_soot x (transport_gas x st)))
      else st)"

subsection \<open>SO4 partitioning\<close>

text \<open>
  The body of the two loops. The gaseous fraction is evaluated at the entry of the gas field
  \<^verbatim>\<open>Data.SO4\<close> as the cell holds it before the pass.
\<close>

definition SO4_cell :: "extern \<Rightarrow> prep \<Rightarrow> nat \<times> nat \<Rightarrow> state \<Rightarrow> state" where
  "SO4_cell x su cell st =
     (case cell of (i, j) \<Rightarrow>
        let frac = H2SO4_GASFRAC x (temperature_K su) (get2D (spc (Data st) SO4) j i);
            d0 = Data st;
            d1 = d0\<lparr>spc := (spc d0)
                   (SO4L := set2D (spc d0 SO4L) j i ((1 - frac) * get2D (spc d0 SO4T) j i))\<rparr>;
            d2 = d1\<lparr>spc := (spc d1)
                   (SO4 := set2D (spc d1 SO4) j i (get2D (spc d1 SO4T) j i - get2D (spc d1 SO4L) j i))\<rparr>
        in st\<lparr>frac_gSO4 := frac, Data := d2\<rparr>)"

definition SO4_partitioning :: "config \<Rightarrow> extern \<Rightarrow> prep \<Rightarrow> state \<Rightarrow> state" where
  "SO4_partitioning c x su st =
     counters_after c (fold (SO4_cell x su) (cells (NX c) (NY c)) st)"

subsection \<open>Cosine of the solar zenith angle\<close>

definition update_sun :: "extern \<Rightarrow> state \<Rightarrow> state" where
  "update_sun x st =
     (let s = SZA_Update x (sun st) (curr_Time_s st)
      in st\<lparr>sun := s,
            ambientData := (ambientData st)
              \<lparr>cosSZA := (cosSZA (ambientData st))[nTime st := CSZA s]\<rparr>\<rparr>)"

subsection \<open>Photolysis rates\<close>

definition update_photolysis :: "config \<Rightarrow> extern \<Rightarrow> state \<Rightarrow> state" where
  "update_photolysis c x st =
     (let st0 = st\<lparr>PHOTOL := clear_n (NPHOTOL c) (PHOTOL st)\<rparr>
      in if CSZA (sun st0) > 0
         then st0\<lparr>PHOTOL := Read_JRates x (PHOTOL st0) (CSZA (sun st0)),
                  calls := Call_Read_JRates (CSZA (sun st0)) # calls st0\<rparr>
         else st0)"

subsection \<open>KPP\<close>

text \<open>
  The heterogeneous rates: the relative humidity is computed from the water of
  \<^verbatim>\<open>varArray\<close>, then \<^verbatim>\<open>GC_SETHET\<close> fills the cleared \<^verbatim>\<open>HET\<close>.
\<close>

definition set_HET :: "config \<Rightarrow> extern \<Rightarrow> prep \<Rightarrow> real \<Rightarrow> real \<Rightarrow> state \<Rightarrow> state" where
  "set_HET c x su T P st =
     (let rh = varArray st ! ind_H2O c * physConst_kB x * T * 1000000 / pSat_H2Ol x T
      in st\<lparr>relHumidity_Ring := rh,
            HET := GC_SETHET x T P (airDens su) rh (STATE_PSC (Data st)) (varArray st)
                     (AerosolArea st) (AerosolRadi st) (IWC st) (kheti_sla st) (HET st)\<rparr>)"

text \<open>
  The reaction rates are cleared and updated, then \<^verbatim>\<open>KPP_Main\<close> integrates over the time
  step and its status is stored in \<^verbatim>\<open>IERR\<close>.
\<close>

definition integrate :: "config \<Rightarrow> extern \<Rightarrow> prep \<Rightarrow> real \<Rightarrow> real \<Rightarrow> site \<Rightarrow> state \<Rightarrow> state" where
  "integrate c x su T P place st =
     (let rc = Update_RCONST x T P (airDens su) (varArray st ! ind_H2O c) (PHOTOL st) (HET st)
                 (clear_n (NREACT c) (RCONST st))
      in case KPP_Main x (varArray st) (fixArray st) (curr_Time_s st) (dt st)
                (KPP_RTOLS c) (KPP_ATOLS c) rc of
           (ierr, v, f) \<Rightarrow>
             st\<lparr>RCONST := rc, IERR := ierr, varArray := v, fixArray := f,
                calls := Call_KPP_Main place ierr # calls st\<rparr>)"

text \<open>The body of the loop over the rings. \<open>Inl\<close> is \<^verbatim>\<open>return KPP_FAIL\<close>.\<close>

definition chem_ring :: "config \<Rightarrow> extern \<Rightarrow> prep \<Rightarrow> nat \<Rightarrow> state \<Rightarrow> state + state" where
  "chem_ring c x su iRing st =
     (let st1 = (case SpeciesArray_getData x (ringSpecies st) (varArray st, fixArray st)
                        (nTime st + 1) iRing of
                   (v, f) \<Rightarrow> st\<lparr>varArray := v, fixArray := f\<rparr>);
          st2 = st1\<lparr>tempArray := copy_n (NVAR c) (varArray st1) (tempArray st1)\<rparr>;
          st3 = (if HETCHEMISTRY c
                 then (let st0 = st2\<lparr>HET := clear_HET (NSPEC c) (HET st2)\<rparr>
                       in case getAerosolProp x (Data st0)
                                 (AerosolRadi st0, AerosolArea st0, IWC st0)
                                 (mapRing2Mesh su ! iRing) of
                            (radi, area, iwc) \<Rightarrow>
                              set_HET c x su (temperature_K su) (pressure_Pa su)
                                (st0\<lparr>AerosolRadi := radi, AerosolArea := area, IWC := iwc\<rparr>))
                 else st2);
          st4 = integrate c x su (temperature_K su) (pressure_Pa su) (In_Ring iRing) st3
      in if IERR st4 < 0 then Inl st4
         else Inr (st4\<lparr>ringSpecies := SpeciesArray_FillIn_ring x (ringSpecies st4)
                                          (varArray st4) (nTime st4 + 1) iRing,
                       Data := applyRing x (Data st4) (varArray st4) (tempArray st4)
                                 (mapRing2Mesh su) iRing\<rparr>))"

text \<open>The ambient solve that follows the rings.\<close>

definition chem_ambient_rings :: "config \<Rightarrow> extern \<Rightarrow> prep \<Rightarrow> state \<Rightarrow> state + state" where
  "chem_ambient_rings c x su st =
     (let st1 = (case Ambient_getData x (ambientData st)
                        (varArray st, fixArray st, aerArray st) (nTime st) of
                   (v, f, a) \<Rightarrow> st\<lparr>varArray := v, fixArray := f, aerArray := a\<rparr>);
          st2 = (if HETCHEMISTRY c
                 then set_HET c x su (temperature_K su) (pressure_Pa su)
                        (st1\<lparr>HET := clear_HET (NSPEC c) (HET st1)\<rparr>)
                 else st1);
          st3 = integrate c x su (temperature_K su) (pressure_Pa su) In_Ambient st2
      in if IERR st3 < 0 then Inl st3
         else Inr (st3\<lparr>ambientData := Ambient_FillIn x (ambientData st3) (varArray st3)
                                         (nTime st3 + 1),
                       Data := applyAmbient x (Data st3) (varArray st3) (mapRing2Mesh su)
                                 (nRing su)\<rparr>))"

definition chemistry_rings :: "config \<Rightarrow> extern \<Rightarrow> prep \<Rightarrow> state \<Rightarrow> state + state" where
  "chemistry_rings c x su st =
     (let st0 = st\<lparr>ringSpecies := SpeciesArray_FillIn x (ringSpecies st) (Data st) (mesh su)
                                     (nTime st + 1)\<rparr>
      in if CHEMISTRY c
         then (case loop_until_fail (chem_ring c x su) [0..<nRing su] st0 of
                 Inl failed \<Rightarrow> Inl failed
               | Inr st1 \<Rightarrow> chem_ambient_rings c x su st1)
         else Inr st0)"

text \<open>
  Without rings the chemistry is solved in every cell, with the temperature and the
  pressure of the meteorology at the cell.
\<close>

definition chem_cell :: "config \<Rightarrow> extern \<Rightarrow> prep \<Rightarrow> nat \<times> nat \<Rightarrow> state \<Rightarrow> state + state" where
  "chem_cell c x su cell st =
     (case cell of (i, j) \<Rightarrow>
        let T = temp (Met su) ! j ! i; P = press (Met su) ! j;
            st1 = (case getData x (Data st) (varArray st, fixArray st) i j of
                     (v, f) \<Rightarrow> st\<lparr>iNx := i, jNy := j, varArray := v, fixArray := f\<rparr>);
            st2 = (if HETCHEMISTRY c
                   then set_HET c x su T P (st1\<lparr>HET := clear_HET (NSPEC c) (HET st1)\<rparr>)
                   else st1);
            st3 = integrate c x su T P (In_Cell i j) st2
        in if IERR st3 < 0 then Inl st3
           else Inr (st3\<lparr>Data := applyData x (Data st3) (varArray st3) i j\<rparr>))"

text \<open>
  The ambient solve that follows the cells reads the meteorology at the two loop counters as
  the loops left them. Its call of \<^verbatim>\<open>Update_RCONST\<close> has a fifth argument,
  \<^verbatim>\<open>sun.CSZA\<close>, for which the declaration in KPP.hpp has no parameter.
\<close>

definition chem_ambient_cells :: "config \<Rightarrow> extern \<Rightarrow> prep \<Rightarrow> state \<Rightarrow> state + state" where
  "chem_ambient_cells c x su st =
     (let T = temp (Met su) ! jNy st ! iNx st; P = press (Met su) ! jNy st;
          st1 = (case Ambient_getData x (ambientData st)
                        (varArray st, fixArray st, aerArray st) (nTime st) of
                   (v, f, a) \<Rightarrow> st\<lparr>varArray := v, fixArray := f, aerArray := a\<rparr>);
          st2 = (if HETCHEMISTRY c
                 then set_HET c x su T P (st1\<lparr>HET := clear_HET (NSPEC c) (HET st1)\<rparr>)
                 else st1);
          st3 = integrate c x su T P In_Ambient st2
      in if IERR st3 < 0 then Inl st3
         else Inr (st3\<lparr>ambientData := Ambient_FillIn x (ambientData st3) (varArray st3)
                                         (nTime st3 + 1)\<rparr>))"

definition chemistry_cells :: "config \<Rightarrow> extern \<Rightarrow> prep \<Rightarrow> state \<Rightarrow> state + state" where
  "chemistry_cells c x su st =
     (if CHEMISTRY c
      then (case loop_until_fail (chem_cell c x su) (cells (NX c) (NY c)) st of
              Inl failed \<Rightarrow> Inl failed
            | Inr st1 \<Rightarrow> chem_ambient_cells c x su (counters_after c st1))
      else Inr st)"

definition chemistry :: "config \<Rightarrow> extern \<Rightarrow> prep \<Rightarrow> state \<Rightarrow> state + state" where
  "chemistry c x su st =
     (if RINGS c then chemistry_rings c x su st else chemistry_cells c x su st)"

subsection \<open>Coagulation\<close>

text \<open>
  The symmetry argument of the liquid aerosol is \<^verbatim>\<open>(unsigned int) 2\<close>. The one of the
  solid aerosol is \<^verbatim>\<open>(unsigned int) ( 2 - ( relHumidity_i > 100.0 ) )\<close>: the comparison
  counts as 1 or 0.
\<close>

definition ice_sym :: "prep \<Rightarrow> nat" where
  "ice_sym su = 2 - (if relHumidity_i su > 100 then 1 else 0)"

definition liquid_coagulation :: "config \<Rightarrow> extern \<Rightarrow> prep \<Rightarrow> state \<Rightarrow> state" where
  "liquid_coagulation c x su st =
     (let st1 = st\<lparr>ITS_TIME_FOR_LIQ_COAGULATION :=
                     (curr_Time_s st - lastTimeLiqCoag st \<ge> LIQCOAG_TSTEP c \<or> LAST_STEP st)\<rparr>
      in if ITS_TIME_FOR_LIQ_COAGULATION st1 \<and> LIQ_MICROPHYSICS c
         then (let st2 = st1\<lparr>dtLiqCoag := curr_Time_s st1 - lastTimeLiqCoag st1\<rparr>;
                   st3 = st2\<lparr>lastTimeLiqCoag := curr_Time_s st2\<rparr>
               in st3\<lparr>Data := (Data st3)\<lparr>liquidAerosol :=
                         Coagulate x (liquidAerosol (Data st3)) (dtLiqCoag st3)
                           (LA_Kernel (Data st3)) (LA_MICROPHYSICS su) 2\<rparr>,
                      calls := Call_Coagulate_LA (curr_Time_s st3) (dtLiqCoag st3)
                                 (LA_MICROPHYSICS su) 2 # calls st3\<rparr>)
         else st1)"

definition ice_coagulation :: "config \<Rightarrow> extern \<Rightarrow> prep \<Rightarrow> state \<Rightarrow> state" where
  "ice_coagulation c x su st =
     (let st1 = st\<lparr>ITS_TIME_FOR_ICE_COAGULATION :=
                     (curr_Time_s st - lastTimeIceCoag st \<ge> ICECOAG_TSTEP c \<or> LAST_STEP st)\<rparr>
      in if ITS_TIME_FOR_ICE_COAGULATION st1 \<and> ICE_MICROPHYSICS c
         then (let st2 = st1\<lparr>dtIceCoag := curr_Time_s st1 - lastTimeIceCoag st1\<rparr>;
                   st3 = st2\<lparr>lastTimeIceCoag := curr_Time_s st2\<rparr>
               in st3\<lparr>Data := (Data st3)\<lparr>solidAerosol :=
                         Coagulate x (solidAerosol (Data st3)) (dtIceCoag st3)
                           (PA_Kernel (Data st3)) (PA_MICROPHYSICS su) (ice_sym su)\<rparr>,
                      calls := Call_Coagulate_PA (curr_Time_s st3) (dtIceCoag st3)
                                 (PA_MICROPHYSICS su) (ice_sym su) # calls st3\<rparr>)
         else st1)"

subsection \<open>Saving the aerosol fields\<close>

definition save_LA :: "config \<Rightarrow> state \<Rightarrow> state" where
  "save_LA c st =
     (if SAVE_LA_MICROPHYS c
         \<and> (curr_Time_s st - last (saveTime_LA st) \<ge> SAVE_LA_DT c \<or> LAST_STEP st)
      then st\<lparr>saveTime_LA := saveTime_LA st
                 @ [if LAST_STEP st then curr_Time_s st + dt st else curr_Time_s st],
              saveOutput_LA := saveOutput_LA st @ [pdf (liquidAerosol (Data st))]\<rparr>
      else st)"

definition save_PA :: "config \<Rightarrow> state \<Rightarrow> state" where
  "save_PA c st =
     (if SAVE_PA_MICROPHYS c
         \<and> (curr_Time_s st - last (saveTime_PA st) \<ge> SAVE_PA_DT c \<or> LAST_STEP st)
      then st\<lparr>saveTime_PA := saveTime_PA st
                 @ [if LAST_STEP st then curr_Time_s st + dt st else curr_Time_s st],
              saveOutput_PA := saveOutput_PA st @ [pdf (solidAerosol (Data st))]\<rparr>
      else st)"

subsection \<open>Mass checks\<close>

text \<open>
  The sum that the driver writes out three times, for the ambient, for a cell and for a
  ring, over what each of them holds of a species.
\<close>

definition NOy :: "(species \<Rightarrow> real) \<Rightarrow> real" where
  "NOy f = f NO + f NO2 + f NO3 + f HNO2
         + f HNO3 + f HNO4 + 2 * f N2O5 + f PAN
         + f MPN + f N + f PROPNN + f BrNO2
         + f BrNO3 + f ClNO2 + f ClNO3 + f PPN
         + f PRPN + f R4N1 + f PRN1 + f R4N2
         + 2 * f N2O"

definition ambient_NOy :: "Ambient \<Rightarrow> nat \<Rightarrow> real" where
  "ambient_NOy a k = NOy (\<lambda>s. amb a s ! k)"

definition cell_NOy :: "Solution \<Rightarrow> nat \<Rightarrow> nat \<Rightarrow> real" where
  "cell_NOy d j i = NOy (\<lambda>s. get2D (spc d s) j i)"

definition ring_NOy :: "SpeciesArray \<Rightarrow> nat \<Rightarrow> nat \<Rightarrow> real" where
  "ring_NOy r k iRing = NOy (\<lambda>s. rspc r s ! k ! iRing)"

text \<open>The accumulation over the cells, \<^verbatim>\<open>mass_Emitted_NOy += ( ... ) * cellAreas[jNy][iNx]\<close>.\<close>

definition emitted_NOy :: "config \<Rightarrow> prep \<Rightarrow> Solution \<Rightarrow> real \<Rightarrow> real" where
  "emitted_NOy c su d ambient =
     fold (\<lambda>cell acc. case cell of (i, j) \<Rightarrow>
             acc + (cell_NOy d j i - ambient) * get2D (cellAreas su) j i)
       (cells (NX c) (NY c)) 0"

definition emitted_NOy_Rings :: "prep \<Rightarrow> SpeciesArray \<Rightarrow> nat \<Rightarrow> real \<Rightarrow> real" where
  "emitted_NOy_Rings su r k ambient =
     fold (\<lambda>iRing acc. acc + (ring_NOy r k iRing - ambient) * (ringArea su ! iRing))
       [0..<nRing su] 0"

definition NOy_mass_check :: "config \<Rightarrow> prep \<Rightarrow> state \<Rightarrow> state" where
  "NOy_mass_check c su st =
     (if NOy_MASS_CHECK c
      then (let st1 = st\<lparr>mass_Ambient_NOy := ambient_NOy (ambientData st) (nTime st + 1)\<rparr>;
                st2 = counters_after c
                        (st1\<lparr>mass_Emitted_NOy :=
                               emitted_NOy c su (Data st1) (mass_Ambient_NOy st1)\<rparr>)
            in if RINGS c
               then st2\<lparr>mass_Emitted_NOy_Rings :=
                          emitted_NOy_Rings su (ringSpecies st2) (nTime st2 + 1)
                            (mass_Ambient_NOy st2)\<rparr>
               else st2)
      else st)"

definition emitted_CO2 :: "config \<Rightarrow> prep \<Rightarrow> Solution \<Rightarrow> real \<Rightarrow> real" where
  "emitted_CO2 c su d ambient =
     fold (\<lambda>cell acc. case cell of (i, j) \<Rightarrow>
             acc + (get2D (spc d CO2) j i - ambient) * get2D (cellAreas su) j i)
       (cells (NX c) (NY c)) 0"

definition emitted_CO2_Rings :: "prep \<Rightarrow> SpeciesArray \<Rightarrow> nat \<Rightarrow> real \<Rightarrow> real" where
  "emitted_CO2_Rings su r k ambient =
     fold (\<lambda>iRing acc. acc + (rspc r CO2 ! k ! iRing - ambient) * (ringArea su ! iRing))
       [0..<nRing su] 0"

definition CO2_mass_check :: "config \<Rightarrow> prep \<Rightarrow> state \<Rightarrow> state" where
  "CO2_mass_check c su st =
     (if CO2_MASS_CHECK c
      then (let st1 = st\<lparr>mass_Ambient_CO2 := amb (ambientData st) CO2 ! (nTime st + 1)\<rparr>;
                st2 = counters_after c
                        (st1\<lparr>mass_Emitted_CO2 :=
                               emitted_CO2 c su (Data st1) (mass_Ambient_CO2 st1)\<rparr>)
            in if RINGS c
               then st2\<lparr>mass_Emitted_CO2_Rings :=
                          emitted_CO2_Rings su (ringSpecies st2) (nTime st2 + 1)
                            (mass_Ambient_CO2 st2)\<rparr>
               else st2)
      else st)"

subsection \<open>The step as a whole\<close>

definition advance_time :: "state \<Rightarrow> state" where
  "advance_time st = st\<lparr>curr_Time_s := curr_Time_s st + dt st, nTime := nTime st + 1\<rparr>"

text \<open>What a step does before the chemistry, and what it does after it.\<close>

definition before_chemistry :: "config \<Rightarrow> extern \<Rightarrow> prep \<Rightarrow> state \<Rightarrow> state" where
  "before_chemistry c x su st =
     update_photolysis c x
       (update_sun x
         (SO4_partitioning c x su
           (SANDS c x su
             (update_solvers
               (update_advection c x su
                 (update_diffusion c x su
                   (update_time_step c x su st)))))))"

definition after_chemistry :: "config \<Rightarrow> extern \<Rightarrow> prep \<Rightarrow> state \<Rightarrow> state" where
  "after_chemistry c x su st =
     advance_time
       (CO2_mass_check c su
         (NOy_mass_check c su
           (save_PA c
             (save_LA c
               (ice_coagulation c x su
                 (liquid_coagulation c x su st))))))"

definition time_step :: "config \<Rightarrow> extern \<Rightarrow> prep \<Rightarrow> state \<Rightarrow> state + state" where
  "time_step c x su st =
     (case chemistry c x su (before_chemistry c x su st) of
        Inl failed \<Rightarrow> Inl failed
      | Inr st' \<Rightarrow> Inr (after_chemistry c x su st'))"

section \<open>The time loop\<close>

text \<open>
  \<^verbatim>\<open>while ( curr_Time_s < tFinal_s )\<close>. The time step comes from \<^verbatim>\<open>UpdateTime\<close>, which
  is outside this file, so nothing here bounds the number of steps: the loop is given a
  number of steps it may take. \<open>Unfinished st\<close> is a loop that has taken them all and
  would go on from \<open>st\<close>; \<open>Failed st\<close> is the return from inside a step; \<open>Finished st\<close>
  is the end of the loop.
\<close>

datatype 's loop_exit = Unfinished 's | Failed 's | Finished 's

fun time_loop :: "nat \<Rightarrow> config \<Rightarrow> extern \<Rightarrow> prep \<Rightarrow> state \<Rightarrow> state loop_exit" where
  "time_loop 0 c x su st =
     (if curr_Time_s st < tFinal_s su then Unfinished st else Finished st)"
| "time_loop (Suc n) c x su st =
     (if curr_Time_s st < tFinal_s su
      then (case time_step c x su st of
              Inl failed \<Rightarrow> Failed failed
            | Inr st' \<Rightarrow> time_loop n c x su st')
      else Finished st)"

section \<open>Before and after the loop\<close>

subsection \<open>Early microphysics\<close>

text \<open>
  What the driver does to the outputs of \<^verbatim>\<open>EPM::Integrate\<close>: the area is doubled, and
  with a number of engines other than 2 the ice and soot densities and the two size
  distributions are multiplied by \<^verbatim>\<open>aircraft.getEngNumber() / 2.0\<close>.
\<close>

definition scale_EPM :: "Aircraft \<Rightarrow> EPM_out \<Rightarrow> EPM_out" where
  "scale_EPM ac e =
     (let e1 = e\<lparr>areaPlume := areaPlume e * 2\<rparr>
      in if getEngNumber ac \<noteq> 2
         then (let e2 = e1\<lparr>Ice_den := Ice_den e1 * (real (getEngNumber ac) / 2)\<rparr>;
                   e3 = e2\<lparr>liquidAer := scalePdf (liquidAer e2) (real (getEngNumber ac) / 2)\<rparr>;
                   e4 = e3\<lparr>iceAer := scalePdf (iceAer e3) (real (getEngNumber ac) / 2)\<rparr>
               in e4\<lparr>Soot_den := Soot_den e4 * (real (getEngNumber ac) / 2)\<rparr>)
         else e1)"

subsection \<open>Aerosol considerations\<close>

definition LA_MICROPHYSICS_of :: "extern \<Rightarrow> EPM_out \<Rightarrow> Solution \<Rightarrow> nat" where
  "LA_MICROPHYSICS_of x e d =
     (if Moment x (liquidAer e) \<noteq> 0 then 2
      else if LA_nDens d \<noteq> 0 then 1
      else 0)"

definition PA_MICROPHYSICS_of :: "EPM_out \<Rightarrow> Solution \<Rightarrow> nat" where
  "PA_MICROPHYSICS_of e d =
     (if Ice_den e \<noteq> 0 then 2
      else if PA_nDens d \<noteq> 0 then 1
      else 0)"

subsection \<open>The rings\<close>

text \<open>
  With rings, the cluster is built from the semi-axes of the plume, the emission is added
  into the grid and the ring species are filled in for the initial time. The result is the
  cluster with its areas, the mesh with its mapping, the solution and the ring species.
\<close>

definition init_rings ::
  "config \<Rightarrow> extern \<Rightarrow> real \<Rightarrow> bool \<Rightarrow> Mesh \<Rightarrow> Real_2DVector \<Rightarrow> nat \<Rightarrow> Aircraft \<Rightarrow> Emission
   \<Rightarrow> EPM_out \<Rightarrow> real \<Rightarrow> real \<Rightarrow> Solution \<Rightarrow> nat \<Rightarrow> Cluster \<times> Mesh \<times> Solution \<times> SpeciesArray" where
  "init_rings c x T contrail m areas ntimes ac ei e semiX semiY d k =
     (let cl0 = Cluster_ctor x (NRING c) contrail semiX semiY 0 0;
          rs0 = SpeciesArray_ctor x (getnRing cl0) ntimes (halfRing cl0);
          m1 = Mesh_Ring2Mesh x m cl0;
          cl1 = ComputeRingAreas x cl0 areas (getList m1);
          d1 = addEmission x d ei ac (getList m1) areas (halfRing cl1) T contrail
                 (liquidAer e) (iceAer e) (Soot_den e * areaPlume e / (getRingArea cl1 ! 0));
          rs1 = SpeciesArray_FillIn x rs0 d1 m1 k
      in (cl1, m1, d1, rs1))"

subsection \<open>Everything before the loop\<close>

text \<open>
  The locals that the driver declares without a value hold whatever \<open>locals0\<close> holds; the
  others are set as the driver sets them. Without rings the variables of the rings do not
  exist, and the fields that stand for them are empty.
\<close>

definition PlumeModel_init ::
  "config \<Rightarrow> extern \<Rightarrow> state \<Rightarrow> real \<Rightarrow> real \<Rightarrow> real \<Rightarrow> real \<Rightarrow> real \<Rightarrow> prep \<times> state" where
  "PlumeModel_init c x locals0 T P RHw lon lat =
     (let RHi = RHw * pSat_H2Ol x T / pSat_H2Os x T;
          sun0 = SZA_ctor x lat 81;
          m0 = Mesh_ctor x;
          areas = getAreas m0;
          tInitial_h = 8;
          tFinal_h = tInitial_h + TSIMUL c;
          tInit = tInitial_h * 3600;
          tFin = tFinal_h * 3600;
          times = BuildTime x tInit tFin (3600 * sunRise sun0) (3600 * sunSet sun0);
          met = Meteorology_ctor x (LOAD_MET c) m0 T 11200 (- 3 / 1000);
          dens = P / (physConst_kB x * T) * (1 / 1000000);
          d0 = Solution_Initialize x T P dens RHw lat met;
          amb0 = Ambient_ctor x (length times) d0;
          gas = Solver_ctor x True 0;
          micro = Solver_ctor x True (1 / 10 ^ 50);
          ac = Aircraft_ctor x ''B747-800'' T P RHw;
          ei = Emission_ctor x ac ''C12H24'';
          arrays = Ambient_getData x amb0 (varArray locals0, fixArray locals0, aerArray locals0) 0;
          e = scale_EPM ac
                (EPM_Integrate x T P RHw (fst arrays) (fst (snd arrays)) (snd (snd arrays)) ac ei);
          semiY = 0.5 * getVortexdeltaz1 ac;
          semiX = areaPlume e / (physConst_PI x * 0.5 * getVortexdeltaz1 ac);
          la = LA_MICROPHYSICS_of x e d0;
          pa = PA_MICROPHYSICS_of e d0;
          vf = (if pa = 2 then SettlingVelocity x (BinCenters (solidAerosol d0)) T P
                else replicate (nBin_PA d0) 0);
          rings = (if RINGS c
                   then init_rings c x T (RHi > 100) m0 areas (length times) ac ei e semiX semiY d0 0
                   else (\<lparr>getnRing = 0, halfRing = False, getRingArea = []\<rparr>, m0, d0,
                         ringSpecies locals0));
          cl = fst rings; m1 = fst (snd rings); d1 = fst (snd (snd rings));
          rs = snd (snd (snd rings))
      in (\<lparr>temperature_K = T, pressure_Pa = P, relHumidity_w = RHw, longitude_deg = lon,
           latitude_deg = lat, relHumidity_i = RHi, airDens = dens,
           tInitial_s = tInit, tFinal_s = tFin, timeArray = times, mesh = m1,
           cellAreas = areas, Met = met, aircraft = ac, EI = ei, epm = e,
           semiXaxis = semiX, semiYaxis = semiY,
           LA_MICROPHYSICS = la, PA_MICROPHYSICS = pa,
           TRANSPORT_LA = (la = 2), TRANSPORT_PA = (pa = 2), vFall = vf,
           ringCluster = cl, nRing = getnRing cl, mapRing2Mesh = getList m1,
           ringArea = getRingArea cl\<rparr>,
          locals0\<lparr>curr_Time_s := tInit, dt := 0, nTime := 0, iNx := 0, jNy := 0,
                  LAST_STEP := False,
                  ITS_TIME_FOR_LIQ_COAGULATION := False, lastTimeLiqCoag := tInit,
                  ITS_TIME_FOR_ICE_COAGULATION := False, lastTimeIceCoag := tInit,
                  sun := sun0, Data := d1, ambientData := amb0, ringSpecies := rs,
                  SANDS_GasPhase := gas, SANDS_MicroPhys := micro,
                  varArray := fst arrays, fixArray := fst (snd arrays),
                  aerArray := snd (snd arrays),
                  frac_gSO4 := 0, IWC := 0,
                  saveTime_LA := [tInit], saveOutput_LA := [pdf (liquidAerosol d1)],
                  saveTime_PA := [tInit], saveOutput_PA := [pdf (solidAerosol d1)],
                  calls := []\<rparr>))"

subsection \<open>Saving, and the status that is returned\<close>

definition save_results :: "config \<Rightarrow> extern \<Rightarrow> prep \<Rightarrow> state \<Rightarrow> int" where
  "save_results c x su st =
     (if SAVE_OUTPUT c
         \<and> output_Write x (ringSpecies st) (ambientData st) (ringCluster su) (timeArray su)
             = output_SAVE_FAILURE x
      then SAVE_FAIL
      else if SAVE_LA_MICROPHYS c
         \<and> output_Write_MicroPhys x (OUT_FILE_LA c) (saveOutput_LA st) (saveTime_LA st)
             (BinCenters (liquidAerosol (Data st))) = output_SAVE_FAILURE x
      then SAVE_FAIL
      else if SAVE_PA_MICROPHYS c
         \<and> output_Write_MicroPhys x (OUT_FILE_PA c) (saveOutput_PA st) (saveTime_PA st)
             (BinCenters (solidAerosol (Data st))) = output_SAVE_FAILURE x
      then SAVE_FAIL
      else SUCCESS)"

subsection \<open>The driver\<close>

text \<open>
  What \<^verbatim>\<open>PlumeModel\<close> has done after at most \<open>fuel\<close> steps: it has returned a status,
  or it is still in the loop. Either way the state it is in is kept.
\<close>

datatype 's outcome = Still_Running 's | Returned int 's

fun final :: "'s outcome \<Rightarrow> 's" where
  "final (Still_Running st) = st"
| "final (Returned status st) = st"

definition PlumeModel ::
  "nat \<Rightarrow> config \<Rightarrow> extern \<Rightarrow> state \<Rightarrow> real \<Rightarrow> real \<Rightarrow> real \<Rightarrow> real \<Rightarrow> real \<Rightarrow> state outcome" where
  "PlumeModel fuel c x locals0 T P RHw lon lat =
     (case PlumeModel_init c x locals0 T P RHw lon lat of
        (su, st0) \<Rightarrow>
          (case time_loop fuel c x su st0 of
             Unfinished st \<Rightarrow> Still_Running st
           | Failed st \<Rightarrow> Returned KPP_FAIL st
           | Finished st \<Rightarrow> Returned (save_results c x su st) st))"

section \<open>What the statements are about\<close>

text \<open>A call of \<^verbatim>\<open>KPP_Main\<close> that returned a negative status.\<close>

fun kpp_failed :: "call \<Rightarrow> bool" where
  "kpp_failed (Call_KPP_Main place ierr) = (ierr < 0)"
| "kpp_failed _ = False"



fun is_Read_JRates :: "call \<Rightarrow> bool" where
  "is_Read_JRates (Call_Read_JRates csza) = True"
| "is_Read_JRates _ = False"

fun is_LA_solve :: "call \<Rightarrow> bool" where
  "is_LA_solve (Call_Solve s (LA_pdf k)) = True"
| "is_LA_solve _ = False"

fun is_PA_solve :: "call \<Rightarrow> bool" where
  "is_PA_solve (Call_Solve s (PA_pdf k)) = True"
| "is_PA_solve _ = False"

text \<open>The calls made between an earlier state and a later one.\<close>

definition step_calls :: "state \<Rightarrow> state \<Rightarrow> call list" where
  "step_calls st st' = take (length (calls st') - length (calls st)) (calls st')"



text \<open>
  The symmetry argument that a coagulation call may carry, given whether the relative
  humidity with respect to ice exceeds 100.
\<close>

fun sym_ok :: "bool \<Rightarrow> call \<Rightarrow> bool" where
  "sym_ok contrail (Call_Coagulate_LA t d l s) = (s = 2)"
| "sym_ok contrail (Call_Coagulate_PA t d l s) = (s = (if contrail then 1 else 2))"
| "sym_ok contrail _ = True"

text \<open>
  The velocity that a solver may hold when it is called: zero, but for a bin of the solid
  aerosol, where the vertical velocity is the settling velocity of the bin.
\<close>

fun velocity_ok :: "Real_1DVector \<Rightarrow> call \<Rightarrow> bool" where
  "velocity_ok vf (Call_Transport s) = (s_vx s = 0 \<and> s_vy s = 0)"
| "velocity_ok vf (Call_Solve s (PA_pdf k)) = (s_vx s = 0 \<and> s_vy s = vf ! k)"
| "velocity_ok vf (Call_Solve s tg) = (s_vx s = 0 \<and> s_vy s = 0)"
| "velocity_ok vf _ = True"


text \<open>A state without the four locals that \<^verbatim>\<open>AdvGlobal\<close> writes.\<close>

definition no_adv :: "state \<Rightarrow> state" where
  "no_adv st = st\<lparr>vGlob_x := 0, vGlob_y := 0, dTrav_x := 0, dTrav_y := 0\<rparr>"

text \<open>
  NOy as the specification words it: a sum over the members, where N2O5 and N2O count
  twice and every other member once.
\<close>

definition NOy_members :: "species list" where
  "NOy_members = [NO, NO2, NO3, HNO2, HNO3, HNO4, N2O5, PAN, MPN, N, PROPNN, BrNO2, BrNO3,
                  ClNO2, ClNO3, PPN, PRPN, R4N1, PRN1, R4N2, N2O]"

definition NOy_weight :: "species \<Rightarrow> real" where
  "NOy_weight s = (if s = N2O5 \<or> s = N2O then 2 else 1)"

definition weighted_NOy :: "(species \<Rightarrow> real) \<Rightarrow> real" where
  "weighted_NOy f = (\<Sum>s\<leftarrow>NOy_members. NOy_weight s * f s)"

section \<open>What a step calls and what it leaves alone\<close>

text \<open>
  The definitions of this section describe the driver, they are not part of it: the calls
  that a section of a step makes, as a list that is computed from the state in which the
  step starts, and the part of the state that a section leaves as it is. The lemmas below
  relate them to the step.
\<close>

text \<open>The calls that the transport section makes, the latest first.\<close>

definition SANDS_calls :: "config \<Rightarrow> extern \<Rightarrow> prep \<Rightarrow> state \<Rightarrow> call list" where
  "SANDS_calls c x su st =
     (if DIFFUSION c \<or> ADVECTION c
      then (let d = Transport x (Data st) (SANDS_GasPhase st);
                s = UpdateAdv (SANDS_MicroPhys st) 0 0
            in (if TRANSPORT_PA su
                then rev (map (\<lambda>k. Call_Solve (UpdateAdv s 0 (vFall su ! k)) (PA_pdf k))
                            [0..<nBin_PA d])
                else [])
             @ (if TRANSPORT_LA su
                then rev (map (\<lambda>k. Call_Solve s (LA_pdf k)) [0..<nBin_LA d])
                else [])
             @ [Call_Solve s Soot_Area, Call_Solve s Soot_Radi, Call_Solve s Soot_Dens,
                Call_Transport (SANDS_GasPhase st)])
      else [])"

text \<open>
  What the sections outside the coagulation, the clock and the photolysis leave as it is:
  the time, the step counter, the time step, the flag of the last step, the times of the
  latest coagulations, the sun and the photolysis rates.
\<close>

definition book ::
  "state \<Rightarrow> real \<times> nat \<times> real \<times> bool \<times> real \<times> real \<times> SZA \<times> Real_1DVector" where
  "book st = (curr_Time_s st, nTime st, dt st, LAST_STEP st, lastTimeLiqCoag st,
              lastTimeIceCoag st, sun st, PHOTOL st)"

fun kpp_succeeded :: "call \<Rightarrow> bool" where
  "kpp_succeeded (Call_KPP_Main place ierr) = (0 \<le> ierr)"
| "kpp_succeeded _ = False"

text \<open>
  What one solve of the chemistry does to the calls: it adds one call of \<^verbatim>\<open>KPP_Main\<close>,
  which succeeded when the solve goes on and failed when it returns.
\<close>

definition solved_once :: "site \<Rightarrow> state \<Rightarrow> state + state \<Rightarrow> bool" where
  "solved_once place st r \<longleftrightarrow>
     (case r of
        Inl f \<Rightarrow> book f = book st \<and> calls f = Call_KPP_Main place (IERR f) # calls st
                 \<and> IERR f < 0
      | Inr s \<Rightarrow> book s = book st \<and> calls s = Call_KPP_Main place (IERR s) # calls st
                 \<and> 0 \<le> IERR s)"

text \<open>The time step of a step, and whether the step is the last one.\<close>

definition step_dt :: "extern \<Rightarrow> prep \<Rightarrow> state \<Rightarrow> real" where
  "step_dt x su st =
     UpdateTime x (curr_Time_s st) (tInitial_s su) (3600 * sunRise (sun st)) (3600 * sunSet (sun st))"

definition is_last_step :: "extern \<Rightarrow> prep \<Rightarrow> state \<Rightarrow> bool" where
  "is_last_step x su st \<longleftrightarrow> curr_Time_s st + step_dt x su st \<ge> tFinal_s su"

text \<open>Whether the step that starts in a state calls the coagulation.\<close>

definition liquid_due :: "config \<Rightarrow> extern \<Rightarrow> prep \<Rightarrow> state \<Rightarrow> bool" where
  "liquid_due c x su st \<longleftrightarrow>
     (curr_Time_s st - lastTimeLiqCoag st \<ge> LIQCOAG_TSTEP c \<or> is_last_step x su st)
     \<and> LIQ_MICROPHYSICS c"

definition ice_due :: "config \<Rightarrow> extern \<Rightarrow> prep \<Rightarrow> state \<Rightarrow> bool" where
  "ice_due c x su st \<longleftrightarrow>
     (curr_Time_s st - lastTimeIceCoag st \<ge> ICECOAG_TSTEP c \<or> is_last_step x su st)
     \<and> ICE_MICROPHYSICS c"

text \<open>The calls of a step before its chemistry and after it, the latest first.\<close>

definition before_calls :: "config \<Rightarrow> extern \<Rightarrow> prep \<Rightarrow> state \<Rightarrow> call list" where
  "before_calls c x su st =
     (let csza = CSZA (SZA_Update x (sun st) (curr_Time_s st))
      in (if csza > 0 then [Call_Read_JRates csza] else [])
       @ SANDS_calls c x su
           (update_solvers (update_advection c x su (update_diffusion c x su
              (update_time_step c x su st))))
       @ [Begin_Step (nTime st) (curr_Time_s st)])"

definition coagulation_calls :: "config \<Rightarrow> extern \<Rightarrow> prep \<Rightarrow> state \<Rightarrow> call list" where
  "coagulation_calls c x su st =
     (if ice_due c x su st
      then [Call_Coagulate_PA (curr_Time_s st) (curr_Time_s st - lastTimeIceCoag st)
              (PA_MICROPHYSICS su) (ice_sym su)]
      else [])
   @ (if liquid_due c x su st
      then [Call_Coagulate_LA (curr_Time_s st) (curr_Time_s st - lastTimeLiqCoag st)
              (LA_MICROPHYSICS su) 2]
      else [])"

text \<open>What the chemistry of a step does to the calls.\<close>

definition solved :: "state \<Rightarrow> state + state \<Rightarrow> bool" where
  "solved st r \<longleftrightarrow>
     (case r of
        Inl f \<Rightarrow> book f = book st
                 \<and> (\<exists>c0 new. calls f = c0 # new @ calls st \<and> kpp_failed c0
                              \<and> list_all kpp_succeeded new)
      | Inr s \<Rightarrow> book s = book st
                 \<and> (\<exists>new. calls s = new @ calls st \<and> list_all kpp_succeeded new))"


section \<open>A small configuration\<close>

text \<open>
  A mesh of two cells in one row, one ring, two bins per aerosol and a simulated hour in
  two steps of 1800 s, on which the statements below are instantiated. The routines from
  outside are the simplest ones of their types.
\<close>

definition demo_config :: config where
  "demo_config =
     \<lparr>NX = 2, NY = 1, NRING = 1, NVAR = 1, NSPEC = 1, NREACT = 1, NPHOTOL = 2,
      TSIMUL = 1, LOAD_MET = False, RINGS = True, DIFFUSION = True, ADVECTION = True,
      CHEMISTRY = True, HETCHEMISTRY = True, LIQ_MICROPHYSICS = True,
      ICE_MICROPHYSICS = True, LIQCOAG_TSTEP = 1800, ICECOAG_TSTEP = 3600,
      KPP_RTOLS = 1 / 1000, KPP_ATOLS = 1 / 100, NOy_MASS_CHECK = True,
      CO2_MASS_CHECK = True, SAVE_OUTPUT = True, SAVE_LA_MICROPHYS = True,
      SAVE_PA_MICROPHYS = True, SAVE_LA_DT = 3600, SAVE_PA_DT = 3600, ind_H2O = 0,
      OUT_FILE_LA = ''LA.nc'', OUT_FILE_PA = ''PA.nc''\<rparr>"

definition demo_Data :: Solution where
  "demo_Data =
     \<lparr>spc = (\<lambda>s. [[0, 0]])(SO4 := [[1, 2]], SO4L := [[3, 0]], SO4T := [[4, 2]],
                              NO := [[5, 1]], N2O5 := [[2, 1]], N2O := [[1, 1]]),
      sootDens = [[1, 1]], sootRadi = [[1, 1]], sootArea = [[1, 1]],
      liquidAerosol = \<lparr>BinCenters = [1, 2], pdf = [[[1, 1]], [[2, 2]]]\<rparr>,
      solidAerosol = \<lparr>BinCenters = [3, 4], pdf = [[[3, 3]], [[4, 4]]]\<rparr>,
      nBin_LA = 2, nBin_PA = 2, LA_nDens = 5, PA_nDens = 0,
      LA_Kernel = [[1]], PA_Kernel = [[1]], STATE_PSC = 0\<rparr>"

definition demo_EPM :: EPM_out where
  "demo_EPM =
     \<lparr>Ice_rad = 1, Ice_den = 3, Soot_den = 5, H2O_mol = 1, SO4g_mol = 1, SO4l_mol = 1,
      liquidAer = \<lparr>bin_Centers = [1, 2], bin_pdf = [2, 4]\<rparr>,
      iceAer = \<lparr>bin_Centers = [3, 4], bin_pdf = [6, 8]\<rparr>,
      areaPlume = 10\<rparr>"

definition demo_extern :: extern where
  "demo_extern =
     \<lparr>pSat_H2Ol = (\<lambda>T. 2), pSat_H2Os = (\<lambda>T. 1), physConst_kB = 1, physConst_PI = 3,
      SZA_ctor = (\<lambda>lat day. \<lparr>sunRise = 6, sunSet = 18, CSZA = 1, CSZA_max = 1\<rparr>),
      SZA_Update = (\<lambda>s t. s\<lparr>CSZA := (if t < 30000 then 0 else 1 / 2)\<rparr>),
      Mesh_ctor = \<lparr>getAreas = [[1, 3]], getX = [0, 1], getY = [0], getList = []\<rparr>,
      Mesh_Ring2Mesh = (\<lambda>m cl. m\<lparr>getList := [[(0, 0), (1, 0)]]\<rparr>),
      BuildTime = (\<lambda>t0 t1 rise set. [t0, t0 + 1800, t1]),
      UpdateTime = (\<lambda>t t0 rise set. 1800),
      DiffParam = (\<lambda>t d. (15, 3 / 20)),
      AdvGlobal = (\<lambda>t a. (1 / 10, 1 / 5, 1, 2)),
      Transport = (\<lambda>d s. d),
      Solver_ctor = (\<lambda>fill w. \<lparr>fillNegValues = fill, fillWith = w, s_dt = 9, s_dx = 9,
                                  s_dy = 9, s_vx = 9, s_vy = 9\<rparr>),
      Solve = (\<lambda>s f. f),
      Meteorology_ctor = (\<lambda>load m T z lapse. \<lparr>temp = [[T, T]], press = [0]\<rparr>),
      Solution_Initialize = (\<lambda>T P dens RHw lat met. demo_Data),
      Ambient_ctor = (\<lambda>n d. \<lparr>amb = (\<lambda>s. replicate n 0)(NO := replicate n 1),
                               cosSZA = replicate n 0\<rparr>),
      Ambient_getData = (\<lambda>a arrays k. arrays),
      Ambient_FillIn = (\<lambda>a v k. a),
      Aircraft_ctor = (\<lambda>name T P RHw. \<lparr>getEngNumber = 4, getVortexdeltaz1 = 100,
                                         getFuelFlow = 3, getVFlight = 250\<rparr>),
      Emission_ctor = (\<lambda>ac fuel. \<lparr>getCO2 = 1, getCO = 1, getCH4 = 1, getNO = 1, getNO2 = 1,
                                    getHNO2 = 1, getSO2 = 1, getSoot = 1, getSootRad = 1\<rparr>),
      EPM_Integrate = (\<lambda>T P RHw v f a ac ei. demo_EPM),
      Moment = (\<lambda>a. sum_list (bin_pdf a)),
      SettlingVelocity = (\<lambda>r T P. map (\<lambda>v. v / 100) r),
      Cluster_ctor = (\<lambda>n contrail ax ay cx cy. \<lparr>getnRing = n, halfRing = contrail,
                                                   getRingArea = []\<rparr>),
      ComputeRingAreas = (\<lambda>cl areas mp. cl\<lparr>getRingArea := [4]\<rparr>),
      SpeciesArray_ctor = (\<lambda>n k h. \<lparr>rspc = (\<lambda>s. replicate k (replicate n 0))\<rparr>),
      SpeciesArray_FillIn = (\<lambda>r d m k. r),
      SpeciesArray_FillIn_ring = (\<lambda>r v k i. r),
      SpeciesArray_getData = (\<lambda>r arrays k i. arrays),
      addEmission = (\<lambda>d ei ac mp areas h T contrail la ia soot. d\<lparr>sootDens := [[soot, soot]]\<rparr>),
      getAerosolProp = (\<lambda>d props cs. props),
      applyRing = (\<lambda>d v t mp i. d),
      applyAmbient = (\<lambda>d v mp n. d),
      getData = (\<lambda>d arrays i j. arrays),
      applyData = (\<lambda>d v i j. d),
      H2SO4_GASFRAC = (\<lambda>T conc. if conc \<le> 1 then 1 else 1 / conc),
      Read_JRates = (\<lambda>photol csza. map (\<lambda>v. csza) photol),
      GC_SETHET = (\<lambda>T P dens rh psc v area radi iwc kheti het. het),
      Update_RCONST = (\<lambda>T P dens h2o photol het rc. rc),
      KPP_Main = (\<lambda>v f t step rtol atol rc. (0, v, f)),
      Coagulate = (\<lambda>a step k level sym. a),
      output_Write = (\<lambda>r a cl ts. 0),
      output_Write_MicroPhys = (\<lambda>file out ts r. 0),
      output_SAVE_FAILURE = - 1\<rparr>"

definition demo_locals :: state where
  "demo_locals =
     \<lparr>curr_Time_s = 9, dt = 9, nTime = 9, iNx = 9, jNy = 9, LAST_STEP = True,
      ITS_TIME_FOR_LIQ_COAGULATION = True, lastTimeLiqCoag = 9, dtLiqCoag = 9,
      ITS_TIME_FOR_ICE_COAGULATION = True, lastTimeIceCoag = 9, dtIceCoag = 9,
      sun = \<lparr>sunRise = 9, sunSet = 9, CSZA = 9, CSZA_max = 9\<rparr>,
      Data = demo_Data,
      ambientData = \<lparr>amb = (\<lambda>s. []), cosSZA = []\<rparr>,
      ringSpecies = \<lparr>rspc = (\<lambda>s. [])\<rparr>,
      SANDS_GasPhase = \<lparr>fillNegValues = False, fillWith = 9, s_dt = 9, s_dx = 9, s_dy = 9,
                         s_vx = 9, s_vy = 9\<rparr>,
      SANDS_MicroPhys = \<lparr>fillNegValues = False, fillWith = 9, s_dt = 9, s_dx = 9, s_dy = 9,
                          s_vx = 9, s_vy = 9\<rparr>,
      d_x = 9, d_y = 9, vGlob_x = 9, vGlob_y = 9, dTrav_x = 9, dTrav_y = 9,
      varArray = [9], fixArray = [9], aerArray = [[9, 9]], tempArray = [9], frac_gSO4 = 9,
      AerosolArea = [9], AerosolRadi = [9], IWC = 9, kheti_sla = [9], relHumidity_Ring = 9,
      PHOTOL = [9, 9], HET = [[9, 9, 9]], RCONST = [9], IERR = 9,
      mass_Ambient_NOy = 9, mass_Emitted_NOy = 9, mass_Emitted_NOy_Rings = 9,
      mass_Ambient_CO2 = 9, mass_Emitted_CO2 = 9, mass_Emitted_CO2_Rings = 9,
      saveTime_LA = [], saveOutput_LA = [], saveTime_PA = [], saveOutput_PA = [],
      calls = [Call_Read_JRates 9]\<rparr>"

definition demo_prep :: prep where
  "demo_prep = fst (PlumeModel_init demo_config demo_extern demo_locals 220 24000 60 0 60)"

definition demo_state :: state where
  "demo_state = snd (PlumeModel_init demo_config demo_extern demo_locals 220 24000 60 0 60)"


text \<open>The same, with an early plume that emits no sulfate aerosol and no ice.\<close>

definition clean_extern :: extern where
  "clean_extern =
     demo_extern\<lparr>EPM_Integrate := (\<lambda>T P RHw v f a ac ei.
        demo_EPM\<lparr>Ice_den := 0, liquidAer := \<lparr>bin_Centers = [1, 2], bin_pdf = [0, 0]\<rparr>\<rparr>)\<rparr>"

text \<open>
  The configuration whose early plume emits neither sulfate aerosol nor ice, at the start of
  the loop, and the small configuration after one step and after two.
\<close>

definition clean_prep :: prep where
  "clean_prep = fst (PlumeModel_init demo_config clean_extern demo_locals 220 24000 60 0 60)"

definition clean_state :: state where
  "clean_state = snd (PlumeModel_init demo_config clean_extern demo_locals 220 24000 60 0 60)"



section \<open>Fields and cells\<close>














section \<open>The small configuration, evaluated\<close>



lemma demo_prep_T: "temperature_K demo_prep = 220"
  by (simp add: demo_prep_def PlumeModel_init_def Let_def)



section \<open>Sums over the cells\<close>

lemma fold_add_sum_list: "fold (\<lambda>a acc. acc + h a) xs (a0::real) = a0 + sum_list (map h xs)"
  by (induction xs arbitrary: a0) (simp_all add: add.assoc)

lemma sum_list_upt: "sum_list (map h [0..<n]) = (\<Sum>k<n. (h k :: real))"
  by (induction n) simp_all

lemma cells_Suc: "cells (Suc nx) ny = cells nx ny @ map (\<lambda>j. (nx, j)) [0..<ny]"
  by (simp add: cells_def)

lemma sum_list_cells:
  "sum_list (map (\<lambda>cell. case cell of (i, j) \<Rightarrow> g i j) (cells nx ny))
     = (\<Sum>i<nx. \<Sum>j<ny. (g i j :: real))"
proof (induction nx)
  case 0
  then show ?case by (simp add: cells_def)
next
  case (Suc nx)
  have "sum_list (map ((\<lambda>cell. case cell of (i, j) \<Rightarrow> g i j) \<circ> (\<lambda>j. (nx, j))) [0..<ny])
          = (\<Sum>j<ny. g nx j)"
    by (simp add: comp_def sum_list_upt)
  with Suc show ?case by (simp add: cells_Suc)
qed

lemma NOy_weighted: "NOy f = weighted_NOy f"
  by (simp add: NOy_def weighted_NOy_def NOy_members_def NOy_weight_def)

lemma emitted_NOy_sum:
  "emitted_NOy c su d a =
     (\<Sum>i<NX c. \<Sum>j<NY c. (cell_NOy d j i - a) * get2D (cellAreas su) j i)"
proof -
  have "emitted_NOy c su d a =
          0 + sum_list (map (\<lambda>cell. case cell of (i, j) \<Rightarrow>
                  (cell_NOy d j i - a) * get2D (cellAreas su) j i) (cells (NX c) (NY c)))"
    unfolding emitted_NOy_def
    by (subst fold_add_sum_list[symmetric]) (simp add: case_prod_unfold)
  then show ?thesis by (simp add: sum_list_cells)
qed

section \<open>Clearing\<close>

lemma clear_n_Suc: "clear_n (Suc n) xs = (clear_n n xs)[n := 0]"
  by (simp add: clear_n_def)

lemma length_clear_n: "length (clear_n n xs) = length xs"
  by (induction n) (simp_all add: clear_n_Suc, simp add: clear_n_def)

lemma nth_clear_n: "i < length xs \<Longrightarrow> clear_n n xs ! i = (if i < n then 0 else xs ! i)"
proof (induction n)
  case 0
  then show ?case by (simp add: clear_n_def)
next
  case (Suc n)
  then show ?case
    by (auto simp: clear_n_Suc nth_list_update length_clear_n less_Suc_eq)
qed

lemma clear_n_all: "length xs = n \<Longrightarrow> clear_n n xs = replicate n 0"
  by (rule nth_equalityI) (simp_all add: length_clear_n nth_clear_n)

section \<open>Loops that keep a quantity\<close>

lemma fold_keeps: "(\<And>a s. g (f a s) = g s) \<Longrightarrow> g (fold f xs s) = g s"
  by (induction xs arbitrary: s) auto

lemma loop_until_fail_induct:
  assumes "loop_until_fail body is s = r"
    and "P s"
    and "\<And>i s s'. P s \<Longrightarrow> body i s = Inr s' \<Longrightarrow> P s'"
    and "\<And>i s f. P s \<Longrightarrow> body i s = Inl f \<Longrightarrow> Q f"
  shows "case r of Inl f \<Rightarrow> Q f | Inr s' \<Rightarrow> P s'"
  using assms(1,2)
proof (induction "is" arbitrary: s)
  case Nil
  then show ?case by auto
next
  case (Cons i "is")
  show ?case
  proof (cases "body i s")
    case (Inl f)
    with Cons.prems assms(4) show ?thesis by auto
  next
    case (Inr s')
    with Cons.prems assms(3) have "P s'" by blast
    moreover from Inr Cons.prems have "loop_until_fail body is s' = r" by simp
    ultimately show ?thesis by (rule Cons.IH[rotated])
  qed
qed

section \<open>The calls of the sections\<close>

lemma calls_update_time_step:
  "calls (update_time_step c x su st) = Begin_Step (nTime st) (curr_Time_s st) # calls st"
  by (simp add: update_time_step_def Let_def)

lemma calls_update_diffusion: "calls (update_diffusion c x su st) = calls st"
  by (simp add: update_diffusion_def split: prod.splits)

lemma calls_update_advection: "calls (update_advection c x su st) = calls st"
  by (simp add: update_advection_def split: prod.splits)

lemma calls_update_solvers: "calls (update_solvers st) = calls st"
  by (simp add: update_solvers_def)

lemma calls_SO4_cell: "calls (SO4_cell x su cell st) = calls st"
  by (simp add: SO4_cell_def Let_def split: prod.splits)

lemma calls_counters_after: "calls (counters_after c st) = calls st"
  by (simp add: counters_after_def)

lemma calls_SO4_partitioning: "calls (SO4_partitioning c x su st) = calls st"
  by (simp add: SO4_partitioning_def calls_counters_after fold_keeps[where g = calls] calls_SO4_cell)

lemma calls_update_sun: "calls (update_sun x st) = calls st"
  by (simp add: update_sun_def Let_def)

lemma calls_update_photolysis:
  "calls (update_photolysis c x st) =
     (if CSZA (sun st) > 0 then [Call_Read_JRates (CSZA (sun st))] else []) @ calls st"
  by (simp add: update_photolysis_def Let_def)

lemma calls_save_LA: "calls (save_LA c st) = calls st"
  by (simp add: save_LA_def)

lemma calls_save_PA: "calls (save_PA c st) = calls st"
  by (simp add: save_PA_def)

lemma calls_NOy_mass_check: "calls (NOy_mass_check c su st) = calls st"
  by (simp add: NOy_mass_check_def Let_def calls_counters_after)

lemma calls_CO2_mass_check: "calls (CO2_mass_check c su st) = calls st"
  by (simp add: CO2_mass_check_def Let_def calls_counters_after)

lemma calls_advance_time: "calls (advance_time st) = calls st"
  by (simp add: advance_time_def)

lemma calls_liquid_coagulation:
  "calls (liquid_coagulation c x su st) =
     (if (curr_Time_s st - lastTimeLiqCoag st \<ge> LIQCOAG_TSTEP c \<or> LAST_STEP st) \<and> LIQ_MICROPHYSICS c
      then [Call_Coagulate_LA (curr_Time_s st) (curr_Time_s st - lastTimeLiqCoag st)
              (LA_MICROPHYSICS su) 2]
      else []) @ calls st"
  by (simp add: liquid_coagulation_def Let_def)

lemma calls_ice_coagulation:
  "calls (ice_coagulation c x su st) =
     (if (curr_Time_s st - lastTimeIceCoag st \<ge> ICECOAG_TSTEP c \<or> LAST_STEP st) \<and> ICE_MICROPHYSICS c
      then [Call_Coagulate_PA (curr_Time_s st) (curr_Time_s st - lastTimeIceCoag st)
              (PA_MICROPHYSICS su) (ice_sym su)]
      else []) @ calls st"
  by (simp add: ice_coagulation_def Let_def)

section \<open>The calls of the transport\<close>

lemma UpdateAdv_twice: "UpdateAdv (UpdateAdv s a b) a' b' = UpdateAdv s a' b'"
  by (simp add: UpdateAdv_def)

lemma transport_gas_frame:
  "calls (transport_gas x st) = Call_Transport (SANDS_GasPhase st) # calls st"
  "SANDS_MicroPhys (transport_gas x st) = SANDS_MicroPhys st"
  "Data (transport_gas x st) = Transport x (Data st) (SANDS_GasPhase st)"
  by (simp_all add: transport_gas_def)

lemma transport_soot_frame:
  "calls (transport_soot x st) =
     [Call_Solve (UpdateAdv (SANDS_MicroPhys st) 0 0) Soot_Area,
      Call_Solve (UpdateAdv (SANDS_MicroPhys st) 0 0) Soot_Radi,
      Call_Solve (UpdateAdv (SANDS_MicroPhys st) 0 0) Soot_Dens] @ calls st"
  "SANDS_MicroPhys (transport_soot x st) = UpdateAdv (SANDS_MicroPhys st) 0 0"
  "nBin_LA (Data (transport_soot x st)) = nBin_LA (Data st)"
  "nBin_PA (Data (transport_soot x st)) = nBin_PA (Data st)"
  by (simp_all add: transport_soot_def Let_def)

lemma fold_transport_LA_bin:
  "calls (fold (transport_LA_bin x) ks st)
     = rev (map (\<lambda>k. Call_Solve (SANDS_MicroPhys st) (LA_pdf k)) ks) @ calls st
   \<and> SANDS_MicroPhys (fold (transport_LA_bin x) ks st) = SANDS_MicroPhys st
   \<and> nBin_PA (Data (fold (transport_LA_bin x) ks st)) = nBin_PA (Data st)"
proof (induction ks arbitrary: st)
  case Nil
  then show ?case by simp
next
  case (Cons k ks)
  have "calls (transport_LA_bin x k st) = Call_Solve (SANDS_MicroPhys st) (LA_pdf k) # calls st"
    and "SANDS_MicroPhys (transport_LA_bin x k st) = SANDS_MicroPhys st"
    and "nBin_PA (Data (transport_LA_bin x k st)) = nBin_PA (Data st)"
    by (simp_all add: transport_LA_bin_def Let_def)
  with Cons[of "transport_LA_bin x k st"] show ?case by simp
qed

lemma transport_LA_frame:
  "calls (transport_LA x su st) =
     (if TRANSPORT_LA su
      then rev (map (\<lambda>k. Call_Solve (SANDS_MicroPhys st) (LA_pdf k)) [0..<nBin_LA (Data st)])
      else []) @ calls st"
  "SANDS_MicroPhys (transport_LA x su st) = SANDS_MicroPhys st"
  "nBin_PA (Data (transport_LA x su st)) = nBin_PA (Data st)"
  by (simp_all add: transport_LA_def fold_transport_LA_bin)

lemma fold_transport_PA_bin:
  "calls (fold (transport_PA_bin x su) ks st)
     = rev (map (\<lambda>k. Call_Solve (UpdateAdv (SANDS_MicroPhys st) 0 (vFall su ! k)) (PA_pdf k)) ks)
       @ calls st
   \<and> (\<exists>a b. SANDS_MicroPhys (fold (transport_PA_bin x su) ks st) = UpdateAdv (SANDS_MicroPhys st) a b)"
proof (induction ks arbitrary: st)
  case Nil
  have "SANDS_MicroPhys st = UpdateAdv (SANDS_MicroPhys st) (s_vx (SANDS_MicroPhys st)) (s_vy (SANDS_MicroPhys st))"
    by (simp add: UpdateAdv_def)
  then show ?case by auto
next
  case (Cons k ks)
  have "calls (transport_PA_bin x su k st)
          = Call_Solve (UpdateAdv (SANDS_MicroPhys st) 0 (vFall su ! k)) (PA_pdf k) # calls st"
    and "SANDS_MicroPhys (transport_PA_bin x su k st) = UpdateAdv (SANDS_MicroPhys st) 0 (vFall su ! k)"
    by (simp_all add: transport_PA_bin_def Let_def)
  with Cons[of "transport_PA_bin x su k st"] show ?case by (auto simp: UpdateAdv_twice)
qed

lemma transport_PA_frame:
  "calls (transport_PA x su st) =
     (if TRANSPORT_PA su
      then rev (map (\<lambda>k. Call_Solve (UpdateAdv (SANDS_MicroPhys st) 0 (vFall su ! k)) (PA_pdf k))
                  [0..<nBin_PA (Data st)])
      else []) @ calls st"
  by (simp add: transport_PA_def fold_transport_PA_bin)

lemma calls_SANDS: "calls (SANDS c x su st) = SANDS_calls c x su st @ calls st"
  by (simp add: SANDS_def SANDS_calls_def Let_def transport_PA_frame transport_LA_frame
      transport_soot_frame transport_gas_frame UpdateAdv_twice)

lemma book_eqD:
  assumes "book s' = book s"
  shows "curr_Time_s s' = curr_Time_s s" "nTime s' = nTime s" "dt s' = dt s"
    "LAST_STEP s' = LAST_STEP s" "lastTimeLiqCoag s' = lastTimeLiqCoag s"
    "lastTimeIceCoag s' = lastTimeIceCoag s" "sun s' = sun s" "PHOTOL s' = PHOTOL s"
  using assms by (simp_all add: book_def)

lemma book_update_diffusion: "book (update_diffusion c x su st) = book st"
  by (simp add: update_diffusion_def book_def split: prod.splits)

lemma book_update_advection: "book (update_advection c x su st) = book st"
  by (simp add: update_advection_def book_def split: prod.splits)

lemma book_update_solvers: "book (update_solvers st) = book st"
  by (simp add: update_solvers_def book_def)

lemma book_transport_gas: "book (transport_gas x st) = book st"
  by (simp add: transport_gas_def book_def)

lemma book_transport_soot: "book (transport_soot x st) = book st"
  by (simp add: transport_soot_def book_def Let_def)

lemma book_transport_LA_bin: "book (transport_LA_bin x k st) = book st"
  by (simp add: transport_LA_bin_def book_def Let_def)

lemma book_transport_PA_bin: "book (transport_PA_bin x su k st) = book st"
  by (simp add: transport_PA_bin_def book_def Let_def)

lemma book_SANDS: "book (SANDS c x su st) = book st"
  by (simp add: SANDS_def transport_PA_def transport_LA_def fold_keeps[where g = book]
      book_transport_PA_bin book_transport_LA_bin book_transport_soot book_transport_gas)

lemma book_counters_after: "book (counters_after c st) = book st"
  by (simp add: counters_after_def book_def)

lemma book_SO4_cell: "book (SO4_cell x su cell st) = book st"
  by (simp add: SO4_cell_def book_def Let_def split: prod.splits)

lemma book_SO4_partitioning: "book (SO4_partitioning c x su st) = book st"
  by (simp add: SO4_partitioning_def book_counters_after fold_keeps[where g = book] book_SO4_cell)

lemma book_save_LA: "book (save_LA c st) = book st"
  by (simp add: save_LA_def book_def)

lemma book_save_PA: "book (save_PA c st) = book st"
  by (simp add: save_PA_def book_def)

lemma book_NOy_mass_check: "book (NOy_mass_check c su st) = book st"
  by (simp add: NOy_mass_check_def Let_def counters_after_def book_def)

lemma book_CO2_mass_check: "book (CO2_mass_check c su st) = book st"
  by (simp add: CO2_mass_check_def Let_def counters_after_def book_def)

section \<open>The chemistry\<close>

lemma set_HET_frame:
  "calls (set_HET c x su T P st) = calls st" "book (set_HET c x su T P st) = book st"
  by (simp_all add: set_HET_def Let_def book_def)

lemma integrate_frame:
  "calls (integrate c x su T P place st)
     = Call_KPP_Main place (IERR (integrate c x su T P place st)) # calls st"
  "book (integrate c x su T P place st) = book st"
  by (simp_all add: integrate_def Let_def book_def split: prod.splits)

lemma book_updates:
  "book (st\<lparr>varArray := v\<rparr>) = book st"
  "book (st\<lparr>fixArray := v\<rparr>) = book st"
  "book (st\<lparr>aerArray := a\<rparr>) = book st"
  "book (st\<lparr>tempArray := v\<rparr>) = book st"
  "book (st\<lparr>HET := h\<rparr>) = book st"
  "book (st\<lparr>AerosolRadi := v\<rparr>) = book st"
  "book (st\<lparr>AerosolArea := v\<rparr>) = book st"
  "book (st\<lparr>IWC := r\<rparr>) = book st"
  "book (st\<lparr>ringSpecies := rs\<rparr>) = book st"
  "book (st\<lparr>ambientData := am\<rparr>) = book st"
  "book (st\<lparr>Data := d\<rparr>) = book st"
  "book (st\<lparr>iNx := i\<rparr>) = book st"
  "book (st\<lparr>jNy := j\<rparr>) = book st"
  by (simp_all add: book_def)

lemma chem_ring_once: "solved_once (In_Ring iRing) st (chem_ring c x su iRing st)"
  unfolding solved_once_def chem_ring_def
  by (simp add: integrate_frame set_HET_frame book_updates Let_def split: prod.splits)

lemma chem_ambient_rings_once: "solved_once In_Ambient st (chem_ambient_rings c x su st)"
  unfolding solved_once_def chem_ambient_rings_def
  by (simp add: integrate_frame set_HET_frame book_updates Let_def split: prod.splits)

lemma chem_cell_once: "solved_once (In_Cell i j) st (chem_cell c x su (i, j) st)"
  unfolding solved_once_def chem_cell_def
  by (simp add: integrate_frame set_HET_frame book_updates Let_def split: prod.splits)

lemma chem_ambient_cells_once: "solved_once In_Ambient st (chem_ambient_cells c x su st)"
  unfolding solved_once_def chem_ambient_cells_def
  by (simp add: integrate_frame set_HET_frame book_updates Let_def split: prod.splits)

section \<open>Before the chemistry\<close>

lemma book_update_time_step:
  "book (update_time_step c x su st) =
     (curr_Time_s st, nTime st, step_dt x su st, is_last_step x su st, lastTimeLiqCoag st,
      lastTimeIceCoag st, sun st, PHOTOL st)"
  by (simp add: update_time_step_def Let_def book_def step_dt_def is_last_step_def)

lemma update_sun_frame:
  "curr_Time_s (update_sun x st) = curr_Time_s st" "nTime (update_sun x st) = nTime st"
  "dt (update_sun x st) = dt st" "LAST_STEP (update_sun x st) = LAST_STEP st"
  "lastTimeLiqCoag (update_sun x st) = lastTimeLiqCoag st"
  "lastTimeIceCoag (update_sun x st) = lastTimeIceCoag st"
  "PHOTOL (update_sun x st) = PHOTOL st"
  "sun (update_sun x st) = SZA_Update x (sun st) (curr_Time_s st)"
  by (simp_all add: update_sun_def Let_def)

lemma update_photolysis_frame:
  "curr_Time_s (update_photolysis c x st) = curr_Time_s st"
  "nTime (update_photolysis c x st) = nTime st"
  "dt (update_photolysis c x st) = dt st" "LAST_STEP (update_photolysis c x st) = LAST_STEP st"
  "lastTimeLiqCoag (update_photolysis c x st) = lastTimeLiqCoag st"
  "lastTimeIceCoag (update_photolysis c x st) = lastTimeIceCoag st"
  "sun (update_photolysis c x st) = sun st"
  by (simp_all add: update_photolysis_def Let_def)

text \<open>The state in which the transport section starts.\<close>

lemma book_before_SANDS:
  "book (SO4_partitioning c x su (SANDS c x su (update_solvers (update_advection c x su
           (update_diffusion c x su (update_time_step c x su st))))))
     = (curr_Time_s st, nTime st, step_dt x su st, is_last_step x su st, lastTimeLiqCoag st,
        lastTimeIceCoag st, sun st, PHOTOL st)"
  by (simp add: book_SO4_partitioning book_SANDS book_update_solvers book_update_advection
      book_update_diffusion book_update_time_step)

lemma before_chemistry_frame:
  "curr_Time_s (before_chemistry c x su st) = curr_Time_s st"
  "nTime (before_chemistry c x su st) = nTime st"
  "dt (before_chemistry c x su st) = step_dt x su st"
  "LAST_STEP (before_chemistry c x su st) = is_last_step x su st"
  "lastTimeLiqCoag (before_chemistry c x su st) = lastTimeLiqCoag st"
  "lastTimeIceCoag (before_chemistry c x su st) = lastTimeIceCoag st"
  "sun (before_chemistry c x su st) = SZA_Update x (sun st) (curr_Time_s st)"
  using book_before_SANDS[of c x su st]
  by (simp_all add: before_chemistry_def update_photolysis_frame update_sun_frame book_def)

lemma calls_before_chemistry:
  "calls (before_chemistry c x su st) = before_calls c x su st @ calls st"
  using book_before_SANDS[of c x su st]
  by (simp add: before_chemistry_def before_calls_def Let_def calls_update_photolysis
      update_sun_frame calls_update_sun calls_SO4_partitioning calls_SANDS calls_update_solvers
      calls_update_advection calls_update_diffusion calls_update_time_step book_def)

section \<open>After the chemistry\<close>

lemma liquid_coagulation_frame:
  "curr_Time_s (liquid_coagulation c x su st) = curr_Time_s st"
  "nTime (liquid_coagulation c x su st) = nTime st"
  "dt (liquid_coagulation c x su st) = dt st"
  "LAST_STEP (liquid_coagulation c x su st) = LAST_STEP st"
  "lastTimeIceCoag (liquid_coagulation c x su st) = lastTimeIceCoag st"
  "lastTimeLiqCoag (liquid_coagulation c x su st) =
     (if (curr_Time_s st - lastTimeLiqCoag st \<ge> LIQCOAG_TSTEP c \<or> LAST_STEP st) \<and> LIQ_MICROPHYSICS c
      then curr_Time_s st else lastTimeLiqCoag st)"
  by (simp_all add: liquid_coagulation_def Let_def)

lemma ice_coagulation_frame:
  "curr_Time_s (ice_coagulation c x su st) = curr_Time_s st"
  "nTime (ice_coagulation c x su st) = nTime st"
  "dt (ice_coagulation c x su st) = dt st"
  "LAST_STEP (ice_coagulation c x su st) = LAST_STEP st"
  "lastTimeLiqCoag (ice_coagulation c x su st) = lastTimeLiqCoag st"
  "lastTimeIceCoag (ice_coagulation c x su st) =
     (if (curr_Time_s st - lastTimeIceCoag st \<ge> ICECOAG_TSTEP c \<or> LAST_STEP st) \<and> ICE_MICROPHYSICS c
      then curr_Time_s st else lastTimeIceCoag st)"
  by (simp_all add: ice_coagulation_def Let_def)

lemma book_after_coagulation:
  "book (CO2_mass_check c su (NOy_mass_check c su (save_PA c (save_LA c s)))) = book s"
  by (simp add: book_CO2_mass_check book_NOy_mass_check book_save_PA book_save_LA)

lemma after_chemistry_frame:
  "calls (after_chemistry c x su s) =
     (if (curr_Time_s s - lastTimeIceCoag s \<ge> ICECOAG_TSTEP c \<or> LAST_STEP s) \<and> ICE_MICROPHYSICS c
      then [Call_Coagulate_PA (curr_Time_s s) (curr_Time_s s - lastTimeIceCoag s)
              (PA_MICROPHYSICS su) (ice_sym su)]
      else [])
   @ (if (curr_Time_s s - lastTimeLiqCoag s \<ge> LIQCOAG_TSTEP c \<or> LAST_STEP s) \<and> LIQ_MICROPHYSICS c
      then [Call_Coagulate_LA (curr_Time_s s) (curr_Time_s s - lastTimeLiqCoag s)
              (LA_MICROPHYSICS su) 2]
      else [])
   @ calls s"
  "curr_Time_s (after_chemistry c x su s) = curr_Time_s s + dt s"
  "nTime (after_chemistry c x su s) = Suc (nTime s)"
  "lastTimeLiqCoag (after_chemistry c x su s) =
     (if (curr_Time_s s - lastTimeLiqCoag s \<ge> LIQCOAG_TSTEP c \<or> LAST_STEP s) \<and> LIQ_MICROPHYSICS c
      then curr_Time_s s else lastTimeLiqCoag s)"
  "lastTimeIceCoag (after_chemistry c x su s) =
     (if (curr_Time_s s - lastTimeIceCoag s \<ge> ICECOAG_TSTEP c \<or> LAST_STEP s) \<and> ICE_MICROPHYSICS c
      then curr_Time_s s else lastTimeIceCoag s)"
  using book_after_coagulation[of c su "ice_coagulation c x su (liquid_coagulation c x su s)"]
  by (simp_all add: after_chemistry_def advance_time_def calls_CO2_mass_check
      calls_NOy_mass_check calls_save_PA calls_save_LA calls_ice_coagulation
      calls_liquid_coagulation ice_coagulation_frame liquid_coagulation_frame book_def)

section \<open>The chemistry of a step\<close>

lemma solved_start: "book s = book st \<Longrightarrow> calls s = calls st \<Longrightarrow> solved st (Inr s)"
  by (simp add: solved_def)

lemma solved_once_then:
  assumes "solved st (Inr s)" "solved_once place s r"
  shows "solved st r"
proof (cases r)
  case (Inl f)
  from assms(1) obtain new where new: "book s = book st" "calls s = new @ calls st"
    "list_all kpp_succeeded new" by (auto simp: solved_def)
  from assms(2) Inl have f: "book f = book s" "calls f = Call_KPP_Main place (IERR f) # calls s"
    "IERR f < 0" by (simp_all add: solved_once_def)
  have "calls f = Call_KPP_Main place (IERR f) # new @ calls st \<and> kpp_failed (Call_KPP_Main place (IERR f))
        \<and> list_all kpp_succeeded new"
    using new f by simp
  then show ?thesis using Inl new(1) f(1) unfolding solved_def by (auto simp del: kpp_failed.simps)
next
  case (Inr s')
  from assms(1) obtain new where new: "book s = book st" "calls s = new @ calls st"
    "list_all kpp_succeeded new" by (auto simp: solved_def)
  from assms(2) Inr have s': "book s' = book s" "calls s' = Call_KPP_Main place (IERR s') # calls s"
    "0 \<le> IERR s'" by (simp_all add: solved_once_def)
  have "calls s' = (Call_KPP_Main place (IERR s') # new) @ calls st
        \<and> list_all kpp_succeeded (Call_KPP_Main place (IERR s') # new)"
    using new s' by simp
  then show ?thesis using Inr new(1) s'(1) unfolding solved_def by (auto simp del: append_Cons)
qed

lemma loop_solved:
  assumes "solved st (Inr s)"
    and "\<And>i s. \<exists>place. solved_once place s (body i s)"
  shows "solved st (loop_until_fail body is s)"
proof -
  have "case loop_until_fail body is s of Inl f \<Rightarrow> solved st (Inl f) | Inr s' \<Rightarrow> solved st (Inr s')"
  proof (rule loop_until_fail_induct[where P = "\<lambda>s. solved st (Inr s)" and Q = "\<lambda>f. solved st (Inl f)"])
    show "loop_until_fail body is s = loop_until_fail body is s" by simp
    show "solved st (Inr s)" by (rule assms(1))
  next
    fix i s s'
    assume "solved st (Inr s)" "body i s = Inr s'"
    with assms(2)[of s i] show "solved st (Inr s')" by (metis solved_once_then)
  next
    fix i s f
    assume "solved st (Inr s)" "body i s = Inl f"
    with assms(2)[of s i] show "solved st (Inl f)" by (metis solved_once_then)
  qed
  then show ?thesis by (cases "loop_until_fail body is s") simp_all
qed

lemma chemistry_rings_solved: "solved st (chemistry_rings c x su st)"
proof (cases "CHEMISTRY c")
  case False
  then show ?thesis by (simp add: chemistry_rings_def Let_def solved_def book_updates)
next
  case True
  define st0 where "st0 = st\<lparr>ringSpecies := SpeciesArray_FillIn x (ringSpecies st) (Data st)
                                 (mesh su) (nTime st + 1)\<rparr>"
  have start: "solved st (Inr st0)"
    by (rule solved_start) (simp_all add: st0_def book_updates)
  have loop: "solved st (loop_until_fail (chem_ring c x su) [0..<nRing su] st0)"
    using start by (rule loop_solved) (blast intro: chem_ring_once)
  show ?thesis
  proof (cases "loop_until_fail (chem_ring c x su) [0..<nRing su] st0")
    case (Inl f)
    with loop True show ?thesis by (simp add: chemistry_rings_def Let_def st0_def)
  next
    case (Inr s1)
    with loop have "solved st (chem_ambient_rings c x su s1)"
      by (metis solved_once_then chem_ambient_rings_once)
    with Inr True show ?thesis by (simp add: chemistry_rings_def Let_def st0_def)
  qed
qed

lemma chem_cell_once': "\<exists>place. solved_once place s (chem_cell c x su cell s)"
  by (cases cell) (blast intro: chem_cell_once)

lemma solved_counters_after: "solved st (Inr s) \<Longrightarrow> solved st (Inr (counters_after c s))"
  by (simp add: solved_def book_counters_after calls_counters_after)

lemma chemistry_cells_solved: "solved st (chemistry_cells c x su st)"
proof (cases "CHEMISTRY c")
  case False
  then show ?thesis by (simp add: chemistry_cells_def solved_def)
next
  case True
  have start: "solved st (Inr st)" by (rule solved_start) simp_all
  have loop: "solved st (loop_until_fail (chem_cell c x su) (cells (NX c) (NY c)) st)"
    using start by (rule loop_solved) (rule chem_cell_once')
  show ?thesis
  proof (cases "loop_until_fail (chem_cell c x su) (cells (NX c) (NY c)) st")
    case (Inl f)
    with loop True show ?thesis by (simp add: chemistry_cells_def)
  next
    case (Inr s1)
    with loop have "solved st (Inr (counters_after c s1))" by (simp add: solved_counters_after)
    then have "solved st (chem_ambient_cells c x su (counters_after c s1))"
      by (metis solved_once_then chem_ambient_cells_once)
    with Inr True show ?thesis by (simp add: chemistry_cells_def)
  qed
qed

lemma chemistry_solved: "solved st (chemistry c x su st)"
  by (simp add: chemistry_def chemistry_rings_solved chemistry_cells_solved)

section \<open>A step\<close>

lemma time_step_failed:
  assumes "time_step c x su st = Inl f"
  shows "\<exists>c0 new. calls f = c0 # new @ before_calls c x su st @ calls st
           \<and> kpp_failed c0 \<and> list_all kpp_succeeded new"
proof -
  from assms have "chemistry c x su (before_chemistry c x su st) = Inl f"
    by (simp add: time_step_def split: sum.splits)
  with chemistry_solved[of "before_chemistry c x su st" c x su]
  show ?thesis by (simp add: solved_def calls_before_chemistry)
qed

lemma time_step_done:
  assumes "time_step c x su st = Inr st'"
  shows "\<exists>new. calls st' = coagulation_calls c x su st @ new @ before_calls c x su st @ calls st
           \<and> list_all kpp_succeeded new"
    and "curr_Time_s st' = curr_Time_s st + step_dt x su st"
    and "nTime st' = Suc (nTime st)"
    and "lastTimeLiqCoag st' = (if liquid_due c x su st then curr_Time_s st else lastTimeLiqCoag st)"
    and "lastTimeIceCoag st' = (if ice_due c x su st then curr_Time_s st else lastTimeIceCoag st)"
proof -
  from assms obtain s where s: "chemistry c x su (before_chemistry c x su st) = Inr s"
    and st': "st' = after_chemistry c x su s"
    by (auto simp: time_step_def split: sum.splits)
  from chemistry_solved[of "before_chemistry c x su st" c x su] s
  obtain new where b: "book s = book (before_chemistry c x su st)"
    and new: "calls s = new @ before_calls c x su st @ calls st" "list_all kpp_succeeded new"
    by (auto simp: solved_def calls_before_chemistry)
  note fr = book_eqD[OF b] before_chemistry_frame
  show "\<exists>new. calls st' = coagulation_calls c x su st @ new @ before_calls c x su st @ calls st
           \<and> list_all kpp_succeeded new"
    using new by (auto simp: st' after_chemistry_frame fr coagulation_calls_def liquid_due_def ice_due_def)
  show "curr_Time_s st' = curr_Time_s st + step_dt x su st"
    by (simp add: st' after_chemistry_frame fr)
  show "nTime st' = Suc (nTime st)"
    by (simp add: st' after_chemistry_frame fr)
  show "lastTimeLiqCoag st' = (if liquid_due c x su st then curr_Time_s st else lastTimeLiqCoag st)"
    by (simp add: st' after_chemistry_frame fr liquid_due_def)
  show "lastTimeIceCoag st' = (if ice_due c x su st then curr_Time_s st else lastTimeIceCoag st)"
    by (simp add: st' after_chemistry_frame fr ice_due_def)
qed

section \<open>The loop\<close>

lemma time_loop_induct:
  assumes "I st"
    and "\<And>s s'. I s \<Longrightarrow> curr_Time_s s < tFinal_s su \<Longrightarrow> time_step c x su s = Inr s' \<Longrightarrow> I s'"
    and "\<And>s f. I s \<Longrightarrow> curr_Time_s s < tFinal_s su \<Longrightarrow> time_step c x su s = Inl f \<Longrightarrow> F f"
  shows "case time_loop n c x su st of
           Unfinished s \<Rightarrow> I s \<and> curr_Time_s s < tFinal_s su
         | Failed f \<Rightarrow> F f
         | Finished s \<Rightarrow> I s \<and> \<not> curr_Time_s s < tFinal_s su"
  using assms(1)
proof (induction n arbitrary: st)
  case 0
  then show ?case by simp
next
  case (Suc n)
  show ?case
  proof (cases "curr_Time_s st < tFinal_s su")
    case False
    with Suc.prems show ?thesis by simp
  next
    case True
    show ?thesis
    proof (cases "time_step c x su st")
      case (Inl f)
      with True Suc.prems assms(3) show ?thesis by simp
    next
      case (Inr s')
      with True Suc.prems assms(2) have "I s'" by blast
      from Suc.IH[OF this] True Inr show ?thesis by simp
    qed
  qed
qed

lemma PlumeModel_final:
  "final (PlumeModel fuel c x locals0 T P RHw lon lat) =
     (case PlumeModel_init c x locals0 T P RHw lon lat of
        (su, st0) \<Rightarrow> (case time_loop fuel c x su st0 of
                        Unfinished s \<Rightarrow> s | Failed f \<Rightarrow> f | Finished s \<Rightarrow> s))"
  by (simp add: PlumeModel_def split: prod.splits loop_exit.splits)

lemma init_calls: "calls (snd (PlumeModel_init c x locals0 T P RHw lon lat)) = []"
  by (simp add: PlumeModel_init_def Let_def)

section \<open>Properties of every call\<close>

lemma all_SANDS_calls:
  assumes "\<And>s. s_vx s = 0 \<Longrightarrow> s_vy s = 0 \<Longrightarrow> P (Call_Transport s)"
    and "\<And>s. s_vx s = 0 \<Longrightarrow> s_vy s = 0 \<Longrightarrow> P (Call_Solve s Soot_Dens)"
    and "\<And>s. s_vx s = 0 \<Longrightarrow> s_vy s = 0 \<Longrightarrow> P (Call_Solve s Soot_Radi)"
    and "\<And>s. s_vx s = 0 \<Longrightarrow> s_vy s = 0 \<Longrightarrow> P (Call_Solve s Soot_Area)"
    and "\<And>s k. s_vx s = 0 \<Longrightarrow> s_vy s = 0 \<Longrightarrow> P (Call_Solve s (LA_pdf k))"
    and "\<And>s k. s_vx s = 0 \<Longrightarrow> s_vy s = vFall su ! k \<Longrightarrow> P (Call_Solve s (PA_pdf k))"
    and "s_vx (SANDS_GasPhase st) = 0" "s_vy (SANDS_GasPhase st) = 0"
  shows "list_all P (SANDS_calls c x su st)"
  using assms by (auto simp: SANDS_calls_def Let_def list_all_iff UpdateAdv_def)

lemma gas_velocity_before_SANDS:
  "s_vx (SANDS_GasPhase (update_solvers s)) = 0" "s_vy (SANDS_GasPhase (update_solvers s)) = 0"
  by (simp_all add: update_solvers_def UpdateAdv_def)

lemma all_before_calls:
  assumes "\<And>n t. P (Begin_Step n t)" "\<And>csza. P (Call_Read_JRates csza)"
    and "\<And>s. s_vx s = 0 \<Longrightarrow> s_vy s = 0 \<Longrightarrow> P (Call_Transport s)"
    and "\<And>s. s_vx s = 0 \<Longrightarrow> s_vy s = 0 \<Longrightarrow> P (Call_Solve s Soot_Dens)"
    and "\<And>s. s_vx s = 0 \<Longrightarrow> s_vy s = 0 \<Longrightarrow> P (Call_Solve s Soot_Radi)"
    and "\<And>s. s_vx s = 0 \<Longrightarrow> s_vy s = 0 \<Longrightarrow> P (Call_Solve s Soot_Area)"
    and "\<And>s k. s_vx s = 0 \<Longrightarrow> s_vy s = 0 \<Longrightarrow> P (Call_Solve s (LA_pdf k))"
    and "\<And>s k. s_vx s = 0 \<Longrightarrow> s_vy s = vFall su ! k \<Longrightarrow> P (Call_Solve s (PA_pdf k))"
  shows "list_all P (before_calls c x su st)"
proof -
  have "list_all P (SANDS_calls c x su (update_solvers (update_advection c x su
          (update_diffusion c x su (update_time_step c x su st)))))"
    by (rule all_SANDS_calls) (fact assms gas_velocity_before_SANDS)+
  then show ?thesis
    by (simp add: before_calls_def Let_def assms(1,2))
qed

lemma all_coagulation_calls:
  assumes "\<And>t d l. P (Call_Coagulate_LA t d l 2)" "\<And>t d l. P (Call_Coagulate_PA t d l (ice_sym su))"
  shows "list_all P (coagulation_calls c x su st)"
  using assms by (simp add: coagulation_calls_def)

lemma all_succeeded:
  assumes "\<And>place ierr. 0 \<le> ierr \<Longrightarrow> P (Call_KPP_Main place ierr)"
  shows "list_all kpp_succeeded new \<Longrightarrow> list_all P new"
proof (induction new)
  case Nil
  then show ?case by simp
next
  case (Cons a new)
  then show ?case using assms by (cases a) simp_all
qed

text \<open>
  A property that holds of every kind of call that a step makes holds of every call that
  the driver has made.
\<close>

lemma all_calls:
  assumes "\<And>n t. P (Begin_Step n t)" "\<And>csza. P (Call_Read_JRates csza)"
    and "\<And>s. s_vx s = 0 \<Longrightarrow> s_vy s = 0 \<Longrightarrow> P (Call_Transport s)"
    and "\<And>s. s_vx s = 0 \<Longrightarrow> s_vy s = 0 \<Longrightarrow> P (Call_Solve s Soot_Dens)"
    and "\<And>s. s_vx s = 0 \<Longrightarrow> s_vy s = 0 \<Longrightarrow> P (Call_Solve s Soot_Radi)"
    and "\<And>s. s_vx s = 0 \<Longrightarrow> s_vy s = 0 \<Longrightarrow> P (Call_Solve s Soot_Area)"
    and "\<And>s k. s_vx s = 0 \<Longrightarrow> s_vy s = 0 \<Longrightarrow> P (Call_Solve s (LA_pdf k))"
    and "\<And>s k. s_vx s = 0 \<Longrightarrow> s_vy s = vFall su ! k \<Longrightarrow> P (Call_Solve s (PA_pdf k))"
    and "\<And>t d l. P (Call_Coagulate_LA t d l 2)" "\<And>t d l. P (Call_Coagulate_PA t d l (ice_sym su))"
    and "\<And>place ierr. P (Call_KPP_Main place ierr)"
    and "list_all P (calls st)"
  shows "case time_loop n c x su st of
           Unfinished s \<Rightarrow> list_all P (calls s)
         | Failed f \<Rightarrow> list_all P (calls f)
         | Finished s \<Rightarrow> list_all P (calls s)"
proof -
  note before = all_before_calls[of P su c x, OF assms(1-8)]
  note coag = all_coagulation_calls[of P su c x, OF assms(9,10)]
  have kpp: "list_all kpp_succeeded new \<Longrightarrow> list_all P new" for new
    by (rule all_succeeded) (rule assms(11))
  have "case time_loop n c x su st of
           Unfinished s \<Rightarrow> list_all P (calls s) \<and> curr_Time_s s < tFinal_s su
         | Failed f \<Rightarrow> list_all P (calls f)
         | Finished s \<Rightarrow> list_all P (calls s) \<and> \<not> curr_Time_s s < tFinal_s su"
  proof (rule time_loop_induct[where I = "\<lambda>s. list_all P (calls s)" and F = "\<lambda>f. list_all P (calls f)"])
    show "list_all P (calls st)" by (rule assms(12))
  next
    fix s s'
    assume old: "list_all P (calls s)" and step: "time_step c x su s = Inr s'"
    from time_step_done(1)[OF step] obtain new
      where "calls s' = coagulation_calls c x su s @ new @ before_calls c x su s @ calls s"
        and "list_all kpp_succeeded new" by blast
    then show "list_all P (calls s')"
      by (simp add: old before coag kpp)
  next
    fix s f
    assume old: "list_all P (calls s)" and step: "time_step c x su s = Inl f"
    from time_step_failed[OF step] obtain c0 new
      where f: "calls f = c0 # new @ before_calls c x su s @ calls s"
        and c0: "kpp_failed c0" and new: "list_all kpp_succeeded new" by blast
    from c0 have "P c0" using assms(11) by (cases c0) simp_all
    then show "list_all P (calls f)"
      by (simp add: f old before kpp new)
  qed
  then show ?thesis by (cases "time_loop n c x su st") simp_all
qed

lemma init_relHumidity_i:
  "relHumidity_i (fst (PlumeModel_init c x locals0 T P RHw lon lat))
     = RHw * pSat_H2Ol x T / pSat_H2Os x T"
  by (simp add: PlumeModel_init_def Let_def)

lemma PlumeModel_calls:
  assumes "\<And>n t. Q (Begin_Step n t)" "\<And>csza. Q (Call_Read_JRates csza)"
    and "\<And>s. s_vx s = 0 \<Longrightarrow> s_vy s = 0 \<Longrightarrow> Q (Call_Transport s)"
    and "\<And>s. s_vx s = 0 \<Longrightarrow> s_vy s = 0 \<Longrightarrow> Q (Call_Solve s Soot_Dens)"
    and "\<And>s. s_vx s = 0 \<Longrightarrow> s_vy s = 0 \<Longrightarrow> Q (Call_Solve s Soot_Radi)"
    and "\<And>s. s_vx s = 0 \<Longrightarrow> s_vy s = 0 \<Longrightarrow> Q (Call_Solve s Soot_Area)"
    and "\<And>s k. s_vx s = 0 \<Longrightarrow> s_vy s = 0 \<Longrightarrow> Q (Call_Solve s (LA_pdf k))"
    and "\<And>s k. s_vx s = 0
            \<Longrightarrow> s_vy s = vFall (fst (PlumeModel_init c x locals0 T P RHw lon lat)) ! k
            \<Longrightarrow> Q (Call_Solve s (PA_pdf k))"
    and "\<And>t d l. Q (Call_Coagulate_LA t d l 2)"
    and "\<And>t d l. Q (Call_Coagulate_PA t d l
                      (ice_sym (fst (PlumeModel_init c x locals0 T P RHw lon lat))))"
    and "\<And>place ierr. Q (Call_KPP_Main place ierr)"
  shows "list_all Q (calls (final (PlumeModel fuel c x locals0 T P RHw lon lat)))"
proof -
  obtain su st0 where init: "PlumeModel_init c x locals0 T P RHw lon lat = (su, st0)"
    by (cases "PlumeModel_init c x locals0 T P RHw lon lat")
  have st0: "list_all Q (calls st0)"
    using init_calls[of c x locals0 T P RHw lon lat] init by simp
  have "case time_loop fuel c x su st0 of
           Unfinished s \<Rightarrow> list_all Q (calls s)
         | Failed f \<Rightarrow> list_all Q (calls f)
         | Finished s \<Rightarrow> list_all Q (calls s)"
  proof (rule all_calls)
    show "list_all Q (calls st0)" by (rule st0)
    show "Q (Call_Solve s (PA_pdf k))" if "s_vx s = 0" "s_vy s = vFall su ! k" for s k
      using assms(8)[of s k] that init by simp
    show "Q (Call_Coagulate_PA t d l (ice_sym su))" for t d l
      using assms(10)[of t d l] init by simp
  qed (fact assms)+
  then show ?thesis
    by (simp add: PlumeModel_final init split: loop_exit.splits)
qed

lemma velocities_of_all_calls:
  "list_all (velocity_ok (vFall (fst (PlumeModel_init c x locals0 T P RHw lon lat))))
     (calls (final (PlumeModel fuel c x locals0 T P RHw lon lat)))"
  by (rule PlumeModel_calls) simp_all










section \<open>The velocities of \<^verbatim>\<open>AdvGlobal\<close> are not read\<close>

lemma fold_commute: "(\<And>a s. f a (h s) = h (f a s)) \<Longrightarrow> fold f xs (h s) = h (fold f xs s)"
  by (induction xs arbitrary: s) auto

lemma loop_until_fail_commute:
  assumes "\<And>i s. body i (h s) = map_sum h h (body i s)"
  shows "loop_until_fail body is (h s) = map_sum h h (loop_until_fail body is s)"
proof (induction "is" arbitrary: s)
  case Nil
  then show ?case by simp
next
  case (Cons i "is")
  then show ?case by (cases "body i s") (simp_all add: assms)
qed

lemma no_adv_fields:
  "curr_Time_s (no_adv s) = curr_Time_s s" "calls (no_adv s) = calls s" "Data (no_adv s) = Data s"
  by (simp_all add: no_adv_def)

lemma no_adv_update_advection: "no_adv (update_advection c x su s) = no_adv s"
  by (simp add: update_advection_def no_adv_def split: prod.splits)

lemma no_adv_update_time_step: "no_adv (update_time_step c x su s) = update_time_step c x su (no_adv s)"
  by (simp add: update_time_step_def no_adv_def Let_def)

lemma no_adv_update_diffusion: "no_adv (update_diffusion c x su s) = update_diffusion c x su (no_adv s)"
  by (simp add: update_diffusion_def no_adv_def split: prod.splits)

lemma no_adv_update_solvers: "no_adv (update_solvers s) = update_solvers (no_adv s)"
  by (simp add: update_solvers_def no_adv_def)

lemma no_adv_transport_gas: "no_adv (transport_gas x s) = transport_gas x (no_adv s)"
  by (simp add: transport_gas_def no_adv_def)

lemma no_adv_transport_soot: "no_adv (transport_soot x s) = transport_soot x (no_adv s)"
  by (simp add: transport_soot_def no_adv_def Let_def)

lemma no_adv_transport_LA_bin: "transport_LA_bin x k (no_adv s) = no_adv (transport_LA_bin x k s)"
  by (simp add: transport_LA_bin_def no_adv_def Let_def)

lemma no_adv_transport_PA_bin: "transport_PA_bin x su k (no_adv s) = no_adv (transport_PA_bin x su k s)"
  by (simp add: transport_PA_bin_def no_adv_def Let_def)

lemma no_adv_transport_LA: "no_adv (transport_LA x su s) = transport_LA x su (no_adv s)"
  by (simp add: transport_LA_def no_adv_fields fold_commute[where h = no_adv] no_adv_transport_LA_bin)

lemma no_adv_transport_PA: "no_adv (transport_PA x su s) = transport_PA x su (no_adv s)"
  by (simp add: transport_PA_def no_adv_fields fold_commute[where h = no_adv] no_adv_transport_PA_bin)

lemma no_adv_SANDS: "no_adv (SANDS c x su s) = SANDS c x su (no_adv s)"
  by (simp add: SANDS_def no_adv_transport_PA no_adv_transport_LA no_adv_transport_soot
      no_adv_transport_gas)

lemma no_adv_counters_after: "no_adv (counters_after c s) = counters_after c (no_adv s)"
  by (simp add: counters_after_def no_adv_def)

lemma no_adv_SO4_cell: "SO4_cell x su cell (no_adv s) = no_adv (SO4_cell x su cell s)"
  by (simp add: SO4_cell_def no_adv_def Let_def split: prod.splits)

lemma no_adv_SO4_partitioning: "no_adv (SO4_partitioning c x su s) = SO4_partitioning c x su (no_adv s)"
  by (simp add: SO4_partitioning_def no_adv_counters_after fold_commute[where h = no_adv]
      no_adv_SO4_cell)

lemma no_adv_update_sun: "no_adv (update_sun x s) = update_sun x (no_adv s)"
  by (simp add: update_sun_def no_adv_def Let_def)

lemma no_adv_update_photolysis: "no_adv (update_photolysis c x s) = update_photolysis c x (no_adv s)"
  by (simp add: update_photolysis_def no_adv_def Let_def)

lemma no_adv_set_HET: "no_adv (set_HET c x su T P s) = set_HET c x su T P (no_adv s)"
  by (simp add: set_HET_def no_adv_def Let_def)

lemma no_adv_integrate: "no_adv (integrate c x su T P place s) = integrate c x su T P place (no_adv s)"
  by (simp add: integrate_def no_adv_def Let_def split: prod.splits)

text \<open>Every other variable is read and written through the erasure.\<close>

lemma no_adv_read:
  "curr_Time_s (no_adv s) = curr_Time_s s"
  "dt (no_adv s) = dt s"
  "nTime (no_adv s) = nTime s"
  "iNx (no_adv s) = iNx s"
  "jNy (no_adv s) = jNy s"
  "LAST_STEP (no_adv s) = LAST_STEP s"
  "ITS_TIME_FOR_LIQ_COAGULATION (no_adv s) = ITS_TIME_FOR_LIQ_COAGULATION s"
  "lastTimeLiqCoag (no_adv s) = lastTimeLiqCoag s"
  "dtLiqCoag (no_adv s) = dtLiqCoag s"
  "ITS_TIME_FOR_ICE_COAGULATION (no_adv s) = ITS_TIME_FOR_ICE_COAGULATION s"
  "lastTimeIceCoag (no_adv s) = lastTimeIceCoag s"
  "dtIceCoag (no_adv s) = dtIceCoag s"
  "sun (no_adv s) = sun s"
  "Data (no_adv s) = Data s"
  "ambientData (no_adv s) = ambientData s"
  "ringSpecies (no_adv s) = ringSpecies s"
  "SANDS_GasPhase (no_adv s) = SANDS_GasPhase s"
  "SANDS_MicroPhys (no_adv s) = SANDS_MicroPhys s"
  "d_x (no_adv s) = d_x s"
  "d_y (no_adv s) = d_y s"
  "varArray (no_adv s) = varArray s"
  "fixArray (no_adv s) = fixArray s"
  "aerArray (no_adv s) = aerArray s"
  "tempArray (no_adv s) = tempArray s"
  "frac_gSO4 (no_adv s) = frac_gSO4 s"
  "AerosolArea (no_adv s) = AerosolArea s"
  "AerosolRadi (no_adv s) = AerosolRadi s"
  "IWC (no_adv s) = IWC s"
  "kheti_sla (no_adv s) = kheti_sla s"
  "relHumidity_Ring (no_adv s) = relHumidity_Ring s"
  "PHOTOL (no_adv s) = PHOTOL s"
  "HET (no_adv s) = HET s"
  "RCONST (no_adv s) = RCONST s"
  "IERR (no_adv s) = IERR s"
  "mass_Ambient_NOy (no_adv s) = mass_Ambient_NOy s"
  "mass_Emitted_NOy (no_adv s) = mass_Emitted_NOy s"
  "mass_Emitted_NOy_Rings (no_adv s) = mass_Emitted_NOy_Rings s"
  "mass_Ambient_CO2 (no_adv s) = mass_Ambient_CO2 s"
  "mass_Emitted_CO2 (no_adv s) = mass_Emitted_CO2 s"
  "mass_Emitted_CO2_Rings (no_adv s) = mass_Emitted_CO2_Rings s"
  "saveTime_LA (no_adv s) = saveTime_LA s"
  "saveOutput_LA (no_adv s) = saveOutput_LA s"
  "saveTime_PA (no_adv s) = saveTime_PA s"
  "saveOutput_PA (no_adv s) = saveOutput_PA s"
  "calls (no_adv s) = calls s"
  by (simp_all add: no_adv_def)

lemma no_adv_write:
  "no_adv (s\<lparr>curr_Time_s := v0\<rparr>) = (no_adv s)\<lparr>curr_Time_s := v0\<rparr>"
  "no_adv (s\<lparr>dt := v1\<rparr>) = (no_adv s)\<lparr>dt := v1\<rparr>"
  "no_adv (s\<lparr>nTime := v2\<rparr>) = (no_adv s)\<lparr>nTime := v2\<rparr>"
  "no_adv (s\<lparr>iNx := v3\<rparr>) = (no_adv s)\<lparr>iNx := v3\<rparr>"
  "no_adv (s\<lparr>jNy := v4\<rparr>) = (no_adv s)\<lparr>jNy := v4\<rparr>"
  "no_adv (s\<lparr>LAST_STEP := v5\<rparr>) = (no_adv s)\<lparr>LAST_STEP := v5\<rparr>"
  "no_adv (s\<lparr>ITS_TIME_FOR_LIQ_COAGULATION := v6\<rparr>) = (no_adv s)\<lparr>ITS_TIME_FOR_LIQ_COAGULATION := v6\<rparr>"
  "no_adv (s\<lparr>lastTimeLiqCoag := v7\<rparr>) = (no_adv s)\<lparr>lastTimeLiqCoag := v7\<rparr>"
  "no_adv (s\<lparr>dtLiqCoag := v8\<rparr>) = (no_adv s)\<lparr>dtLiqCoag := v8\<rparr>"
  "no_adv (s\<lparr>ITS_TIME_FOR_ICE_COAGULATION := v9\<rparr>) = (no_adv s)\<lparr>ITS_TIME_FOR_ICE_COAGULATION := v9\<rparr>"
  "no_adv (s\<lparr>lastTimeIceCoag := v10\<rparr>) = (no_adv s)\<lparr>lastTimeIceCoag := v10\<rparr>"
  "no_adv (s\<lparr>dtIceCoag := v11\<rparr>) = (no_adv s)\<lparr>dtIceCoag := v11\<rparr>"
  "no_adv (s\<lparr>sun := v12\<rparr>) = (no_adv s)\<lparr>sun := v12\<rparr>"
  "no_adv (s\<lparr>Data := v13\<rparr>) = (no_adv s)\<lparr>Data := v13\<rparr>"
  "no_adv (s\<lparr>ambientData := v14\<rparr>) = (no_adv s)\<lparr>ambientData := v14\<rparr>"
  "no_adv (s\<lparr>ringSpecies := v15\<rparr>) = (no_adv s)\<lparr>ringSpecies := v15\<rparr>"
  "no_adv (s\<lparr>SANDS_GasPhase := v16\<rparr>) = (no_adv s)\<lparr>SANDS_GasPhase := v16\<rparr>"
  "no_adv (s\<lparr>SANDS_MicroPhys := v17\<rparr>) = (no_adv s)\<lparr>SANDS_MicroPhys := v17\<rparr>"
  "no_adv (s\<lparr>d_x := v18\<rparr>) = (no_adv s)\<lparr>d_x := v18\<rparr>"
  "no_adv (s\<lparr>d_y := v19\<rparr>) = (no_adv s)\<lparr>d_y := v19\<rparr>"
  "no_adv (s\<lparr>varArray := v20\<rparr>) = (no_adv s)\<lparr>varArray := v20\<rparr>"
  "no_adv (s\<lparr>fixArray := v21\<rparr>) = (no_adv s)\<lparr>fixArray := v21\<rparr>"
  "no_adv (s\<lparr>aerArray := v22\<rparr>) = (no_adv s)\<lparr>aerArray := v22\<rparr>"
  "no_adv (s\<lparr>tempArray := v23\<rparr>) = (no_adv s)\<lparr>tempArray := v23\<rparr>"
  "no_adv (s\<lparr>frac_gSO4 := v24\<rparr>) = (no_adv s)\<lparr>frac_gSO4 := v24\<rparr>"
  "no_adv (s\<lparr>AerosolArea := v25\<rparr>) = (no_adv s)\<lparr>AerosolArea := v25\<rparr>"
  "no_adv (s\<lparr>AerosolRadi := v26\<rparr>) = (no_adv s)\<lparr>AerosolRadi := v26\<rparr>"
  "no_adv (s\<lparr>IWC := v27\<rparr>) = (no_adv s)\<lparr>IWC := v27\<rparr>"
  "no_adv (s\<lparr>kheti_sla := v28\<rparr>) = (no_adv s)\<lparr>kheti_sla := v28\<rparr>"
  "no_adv (s\<lparr>relHumidity_Ring := v29\<rparr>) = (no_adv s)\<lparr>relHumidity_Ring := v29\<rparr>"
  "no_adv (s\<lparr>PHOTOL := v30\<rparr>) = (no_adv s)\<lparr>PHOTOL := v30\<rparr>"
  "no_adv (s\<lparr>HET := v31\<rparr>) = (no_adv s)\<lparr>HET := v31\<rparr>"
  "no_adv (s\<lparr>RCONST := v32\<rparr>) = (no_adv s)\<lparr>RCONST := v32\<rparr>"
  "no_adv (s\<lparr>IERR := v33\<rparr>) = (no_adv s)\<lparr>IERR := v33\<rparr>"
  "no_adv (s\<lparr>mass_Ambient_NOy := v34\<rparr>) = (no_adv s)\<lparr>mass_Ambient_NOy := v34\<rparr>"
  "no_adv (s\<lparr>mass_Emitted_NOy := v35\<rparr>) = (no_adv s)\<lparr>mass_Emitted_NOy := v35\<rparr>"
  "no_adv (s\<lparr>mass_Emitted_NOy_Rings := v36\<rparr>) = (no_adv s)\<lparr>mass_Emitted_NOy_Rings := v36\<rparr>"
  "no_adv (s\<lparr>mass_Ambient_CO2 := v37\<rparr>) = (no_adv s)\<lparr>mass_Ambient_CO2 := v37\<rparr>"
  "no_adv (s\<lparr>mass_Emitted_CO2 := v38\<rparr>) = (no_adv s)\<lparr>mass_Emitted_CO2 := v38\<rparr>"
  "no_adv (s\<lparr>mass_Emitted_CO2_Rings := v39\<rparr>) = (no_adv s)\<lparr>mass_Emitted_CO2_Rings := v39\<rparr>"
  "no_adv (s\<lparr>saveTime_LA := v40\<rparr>) = (no_adv s)\<lparr>saveTime_LA := v40\<rparr>"
  "no_adv (s\<lparr>saveOutput_LA := v41\<rparr>) = (no_adv s)\<lparr>saveOutput_LA := v41\<rparr>"
  "no_adv (s\<lparr>saveTime_PA := v42\<rparr>) = (no_adv s)\<lparr>saveTime_PA := v42\<rparr>"
  "no_adv (s\<lparr>saveOutput_PA := v43\<rparr>) = (no_adv s)\<lparr>saveOutput_PA := v43\<rparr>"
  "no_adv (s\<lparr>calls := v44\<rparr>) = (no_adv s)\<lparr>calls := v44\<rparr>"
  by (simp_all add: no_adv_def)

lemma no_adv_twice: "no_adv (no_adv s) = no_adv s"
  by (simp add: no_adv_def)

lemma no_adv_chem_ring:
  "chem_ring c x su iRing (no_adv s) = map_sum no_adv no_adv (chem_ring c x su iRing s)"
  by (simp add: chem_ring_def Let_def split_beta no_adv_read no_adv_write[symmetric]
      no_adv_set_HET[symmetric] no_adv_integrate[symmetric] if_distrib[of "map_sum no_adv no_adv"])

lemma no_adv_chem_ambient_rings:
  "chem_ambient_rings c x su (no_adv s) = map_sum no_adv no_adv (chem_ambient_rings c x su s)"
  by (simp add: chem_ambient_rings_def Let_def split_beta no_adv_read no_adv_write[symmetric]
      no_adv_set_HET[symmetric] no_adv_integrate[symmetric] if_distrib[of "map_sum no_adv no_adv"])

lemma no_adv_chem_cell:
  "chem_cell c x su cell (no_adv s) = map_sum no_adv no_adv (chem_cell c x su cell s)"
  by (simp add: chem_cell_def Let_def split_beta no_adv_read no_adv_write[symmetric]
      no_adv_set_HET[symmetric] no_adv_integrate[symmetric] if_distrib[of "map_sum no_adv no_adv"])

lemma no_adv_chem_ambient_cells:
  "chem_ambient_cells c x su (no_adv s) = map_sum no_adv no_adv (chem_ambient_cells c x su s)"
  by (simp add: chem_ambient_cells_def Let_def split_beta no_adv_read no_adv_write[symmetric]
      no_adv_set_HET[symmetric] no_adv_integrate[symmetric] if_distrib[of "map_sum no_adv no_adv"])

lemma no_adv_chemistry_rings:
  "chemistry_rings c x su (no_adv s) = map_sum no_adv no_adv (chemistry_rings c x su s)"
proof -
  have loop: "loop_until_fail (chem_ring c x su) is (no_adv t)
                = map_sum no_adv no_adv (loop_until_fail (chem_ring c x su) is t)" for "is" t
    by (rule loop_until_fail_commute) (rule no_adv_chem_ring)
  show ?thesis
    by (cases "loop_until_fail (chem_ring c x su) [0..<nRing su]
                 (s\<lparr>ringSpecies := SpeciesArray_FillIn x (ringSpecies s) (Data s) (mesh su)
                                       (nTime s + 1)\<rparr>)")
      (simp_all add: chemistry_rings_def Let_def no_adv_read no_adv_write[symmetric] loop
        no_adv_chem_ambient_rings)
qed

lemma no_adv_chemistry_cells:
  "chemistry_cells c x su (no_adv s) = map_sum no_adv no_adv (chemistry_cells c x su s)"
proof -
  have loop: "loop_until_fail (chem_cell c x su) is (no_adv t)
                = map_sum no_adv no_adv (loop_until_fail (chem_cell c x su) is t)" for "is" t
    by (rule loop_until_fail_commute) (rule no_adv_chem_cell)
  show ?thesis
    by (cases "loop_until_fail (chem_cell c x su) (cells (NX c) (NY c)) s")
      (simp_all add: chemistry_cells_def loop no_adv_counters_after[symmetric]
        no_adv_chem_ambient_cells)
qed

lemma no_adv_chemistry:
  "chemistry c x su (no_adv s) = map_sum no_adv no_adv (chemistry c x su s)"
  by (simp add: chemistry_def no_adv_chemistry_rings no_adv_chemistry_cells)

lemma no_adv_liquid_coagulation:
  "no_adv (liquid_coagulation c x su s) = liquid_coagulation c x su (no_adv s)"
  by (simp add: liquid_coagulation_def no_adv_def Let_def)

lemma no_adv_ice_coagulation:
  "no_adv (ice_coagulation c x su s) = ice_coagulation c x su (no_adv s)"
  by (simp add: ice_coagulation_def no_adv_def Let_def)

lemma no_adv_save_LA: "no_adv (save_LA c s) = save_LA c (no_adv s)"
  by (simp add: save_LA_def no_adv_def)

lemma no_adv_save_PA: "no_adv (save_PA c s) = save_PA c (no_adv s)"
  by (simp add: save_PA_def no_adv_def)

lemma no_adv_NOy_mass_check: "no_adv (NOy_mass_check c su s) = NOy_mass_check c su (no_adv s)"
  by (simp add: NOy_mass_check_def counters_after_def no_adv_def Let_def)

lemma no_adv_CO2_mass_check: "no_adv (CO2_mass_check c su s) = CO2_mass_check c su (no_adv s)"
  by (simp add: CO2_mass_check_def counters_after_def no_adv_def Let_def)

lemma no_adv_advance_time: "no_adv (advance_time s) = advance_time (no_adv s)"
  by (simp add: advance_time_def no_adv_def)

lemma no_adv_after_chemistry:
  "no_adv (after_chemistry c x su s) = after_chemistry c x su (no_adv s)"
  by (simp add: after_chemistry_def no_adv_advance_time no_adv_CO2_mass_check
      no_adv_NOy_mass_check no_adv_save_PA no_adv_save_LA no_adv_ice_coagulation
      no_adv_liquid_coagulation)

text \<open>What a step does before its chemistry, but for the call of \<^verbatim>\<open>AdvGlobal\<close>.\<close>

lemma no_adv_before_chemistry:
  "no_adv (before_chemistry c x su s) =
     update_photolysis c x (update_sun x (SO4_partitioning c x su (SANDS c x su
       (update_solvers (update_diffusion c x su (update_time_step c x su (no_adv s)))))))"
  by (simp add: before_chemistry_def no_adv_update_photolysis no_adv_update_sun
      no_adv_SO4_partitioning no_adv_SANDS no_adv_update_solvers no_adv_update_advection
      no_adv_update_diffusion no_adv_update_time_step)

section \<open>The routines other than \<^verbatim>\<open>AdvGlobal\<close> do not change with it\<close>

lemma other_before:
  "update_time_step c (x\<lparr>AdvGlobal := g\<rparr>) = update_time_step c x"
  "update_diffusion c (x\<lparr>AdvGlobal := g\<rparr>) = update_diffusion c x"
  "SANDS c (x\<lparr>AdvGlobal := g\<rparr>) = SANDS c x"
  "SO4_partitioning c (x\<lparr>AdvGlobal := g\<rparr>) = SO4_partitioning c x"
  "update_sun (x\<lparr>AdvGlobal := g\<rparr>) = update_sun x"
  "update_photolysis c (x\<lparr>AdvGlobal := g\<rparr>) = update_photolysis c x"
  by (cases x, hypsubst, intro ext,
      unfold update_time_step_def update_diffusion_def SANDS_def transport_PA_def
        transport_LA_def transport_PA_bin_def transport_LA_bin_def transport_soot_def
        transport_gas_def SO4_partitioning_def SO4_cell_def update_sun_def
        update_photolysis_def extern.simps, rule refl)+

lemma other_chemistry: "chemistry c (x\<lparr>AdvGlobal := g\<rparr>) = chemistry c x"
  by (cases x, hypsubst, intro ext)
     (unfold chemistry_def chemistry_rings_def chemistry_cells_def chem_ring_def
        chem_ambient_rings_def chem_cell_def chem_ambient_cells_def set_HET_def integrate_def
        extern.simps, rule refl)

lemma other_after_chemistry: "after_chemistry c (x\<lparr>AdvGlobal := g\<rparr>) = after_chemistry c x"
  by (cases x, hypsubst, intro ext)
     (unfold after_chemistry_def liquid_coagulation_def ice_coagulation_def extern.simps,
      rule refl)

lemma other_save_results: "save_results c (x\<lparr>AdvGlobal := g\<rparr>) = save_results c x"
  by (cases x, hypsubst, intro ext) (unfold save_results_def extern.simps, rule refl)

lemma other_init:
  "PlumeModel_init c (x\<lparr>AdvGlobal := g\<rparr>) locals0 T P RHw lon lat
     = PlumeModel_init c x locals0 T P RHw lon lat"
  by (cases x, hypsubst)
     (unfold PlumeModel_init_def init_rings_def LA_MICROPHYSICS_of_def extern.simps, rule refl)

section \<open>A step, the loop and the driver without the velocities of \<^verbatim>\<open>AdvGlobal\<close>\<close>

lemma no_adv_time_step:
  assumes "no_adv s' = no_adv s"
  shows "map_sum no_adv no_adv (time_step c (x\<lparr>AdvGlobal := g\<rparr>) su s')
           = map_sum no_adv no_adv (time_step c x su s)"
proof -
  have erased: "map_sum no_adv no_adv (time_step c y su t)
          = (case chemistry c y su (no_adv (before_chemistry c y su t)) of
               Inl f \<Rightarrow> Inl f | Inr t' \<Rightarrow> Inr (after_chemistry c y su t'))" for y t
    unfolding time_step_def no_adv_chemistry
    by (cases "chemistry c y su (before_chemistry c y su t)")
       (simp_all add: no_adv_after_chemistry)
  have "no_adv (before_chemistry c (x\<lparr>AdvGlobal := g\<rparr>) su s') = no_adv (before_chemistry c x su s)"
    unfolding no_adv_before_chemistry other_before assms ..
  then show ?thesis
    unfolding erased other_chemistry other_after_chemistry by simp
qed

lemma no_adv_time_loop:
  assumes "no_adv s' = no_adv s"
  shows "map_loop_exit no_adv (time_loop n c (x\<lparr>AdvGlobal := g\<rparr>) su s')
           = map_loop_exit no_adv (time_loop n c x su s)"
  using assms
proof (induction n arbitrary: s s')
  case 0
  from 0 have "curr_Time_s s' = curr_Time_s s" by (metis no_adv_read(1))
  with 0 show ?case by simp
next
  case (Suc n)
  from Suc.prems have time: "curr_Time_s s' = curr_Time_s s" by (metis no_adv_read(1))
  note step = no_adv_time_step[OF Suc.prems, where c = c and x = x and g = g and su = su]
  show ?case
  proof (cases "time_step c x su s")
    case (Inl f)
    with step obtain f' where "time_step c (x\<lparr>AdvGlobal := g\<rparr>) su s' = Inl f'"
      "no_adv f' = no_adv f"
      by (cases "time_step c (x\<lparr>AdvGlobal := g\<rparr>) su s'") simp_all
    with Inl time Suc.prems show ?thesis by simp
  next
    case (Inr t)
    with step obtain t' where "time_step c (x\<lparr>AdvGlobal := g\<rparr>) su s' = Inr t'"
      "no_adv t' = no_adv t"
      by (cases "time_step c (x\<lparr>AdvGlobal := g\<rparr>) su s'") simp_all
    with Inr time Suc.prems Suc.IH[of t' t] show ?thesis by simp
  qed
qed

lemma save_results_no_adv: "save_results c x su (no_adv s) = save_results c x su s"
  by (simp add: save_results_def no_adv_read)

lemma no_adv_PlumeModel:
  "map_outcome no_adv (PlumeModel fuel c (x\<lparr>AdvGlobal := g\<rparr>) locals0 T P RHw lon lat)
     = map_outcome no_adv (PlumeModel fuel c x locals0 T P RHw lon lat)"
proof -
  obtain su st0 where init: "PlumeModel_init c x locals0 T P RHw lon lat = (su, st0)"
    by (cases "PlumeModel_init c x locals0 T P RHw lon lat")
  have loop: "map_loop_exit no_adv (time_loop fuel c (x\<lparr>AdvGlobal := g\<rparr>) su st0)
                = map_loop_exit no_adv (time_loop fuel c x su st0)"
    by (rule no_adv_time_loop) simp
  show ?thesis
  proof (cases "time_loop fuel c x su st0")
    case (Unfinished s)
    with loop obtain s' where "time_loop fuel c (x\<lparr>AdvGlobal := g\<rparr>) su st0 = Unfinished s'"
      "no_adv s' = no_adv s"
      by (cases "time_loop fuel c (x\<lparr>AdvGlobal := g\<rparr>) su st0") simp_all
    with Unfinished show ?thesis by (simp add: PlumeModel_def other_init init)
  next
    case (Failed s)
    with loop obtain s' where "time_loop fuel c (x\<lparr>AdvGlobal := g\<rparr>) su st0 = Failed s'"
      "no_adv s' = no_adv s"
      by (cases "time_loop fuel c (x\<lparr>AdvGlobal := g\<rparr>) su st0") simp_all
    with Failed show ?thesis by (simp add: PlumeModel_def other_init init)
  next
    case (Finished s)
    with loop obtain s' where s': "time_loop fuel c (x\<lparr>AdvGlobal := g\<rparr>) su st0 = Finished s'"
      "no_adv s' = no_adv s"
      by (cases "time_loop fuel c (x\<lparr>AdvGlobal := g\<rparr>) su st0") simp_all
    have "save_results c x su s' = save_results c x su s"
      using save_results_no_adv[of c x su s'] save_results_no_adv[of c x su s] s'(2) by simp
    with Finished s' show ?thesis by (simp add: PlumeModel_def other_init init other_save_results)
  qed
qed

section \<open>The cadence of the coagulation\<close>










section \<open>Photolysis at night\<close>

lemma PHOTOL_before_chemistry:
  "PHOTOL (before_chemistry c x su st) =
     (if CSZA (SZA_Update x (sun st) (curr_Time_s st)) > 0
      then Read_JRates x (clear_n (NPHOTOL c) (PHOTOL st)) (CSZA (SZA_Update x (sun st) (curr_Time_s st)))
      else clear_n (NPHOTOL c) (PHOTOL st))"
  using book_before_SANDS[of c x su st]
  by (simp add: before_chemistry_def update_photolysis_def Let_def update_sun_frame book_def)

lemma PHOTOL_chemistry:
  "(case chemistry c x su st of Inl f \<Rightarrow> PHOTOL f | Inr s \<Rightarrow> PHOTOL s) = PHOTOL st"
  using chemistry_solved[of st c x su]
  by (cases "chemistry c x su st") (simp_all add: solved_def book_def)

lemma no_Read_JRates_SANDS: "list_all (\<lambda>call. \<not> is_Read_JRates call) (SANDS_calls c x su st)"
  by (simp add: SANDS_calls_def Let_def list_all_iff) auto

section \<open>Early microphysics\<close>

lemma scale_EPM_other_engines:
  assumes "getEngNumber ac \<noteq> 2"
  shows "Ice_den (scale_EPM ac e) = Ice_den e * (real (getEngNumber ac) / 2)"
    and "Soot_den (scale_EPM ac e) = Soot_den e * (real (getEngNumber ac) / 2)"
    and "bin_pdf (liquidAer (scale_EPM ac e))
           = map (\<lambda>v. v * (real (getEngNumber ac) / 2)) (bin_pdf (liquidAer e))"
    and "bin_pdf (iceAer (scale_EPM ac e))
           = map (\<lambda>v. v * (real (getEngNumber ac) / 2)) (bin_pdf (iceAer e))"
    and "areaPlume (scale_EPM ac e) = 2 * areaPlume e"
  using assms by (simp_all add: scale_EPM_def Let_def scalePdf_def)

lemma init_epm:
  "epm (fst (PlumeModel_init c x locals0 T P RHw lon lat))
     = scale_EPM (aircraft (fst (PlumeModel_init c x locals0 T P RHw lon lat)))
         (EPM_Integrate x T P RHw
            (varArray (snd (PlumeModel_init c x locals0 T P RHw lon lat)))
            (fixArray (snd (PlumeModel_init c x locals0 T P RHw lon lat)))
            (aerArray (snd (PlumeModel_init c x locals0 T P RHw lon lat)))
            (aircraft (fst (PlumeModel_init c x locals0 T P RHw lon lat)))
            (EI (fst (PlumeModel_init c x locals0 T P RHw lon lat))))"
  by (simp add: PlumeModel_init_def Let_def)

lemma init_semiXaxis:
  "semiXaxis (fst (PlumeModel_init c x locals0 T P RHw lon lat))
     = areaPlume (epm (fst (PlumeModel_init c x locals0 T P RHw lon lat)))
       / (physConst_PI x * 0.5
          * getVortexdeltaz1 (aircraft (fst (PlumeModel_init c x locals0 T P RHw lon lat))))"
  by (simp add: PlumeModel_init_def Let_def)

lemma init_Data_rings:
  "RINGS c \<Longrightarrow>
   Data (snd (PlumeModel_init c x locals0 T P RHw lon lat))
     = (let su = fst (PlumeModel_init c x locals0 T P RHw lon lat)
        in addEmission x (Solution_Initialize x T P (airDens su) RHw lat (Met su))
             (EI su) (aircraft su) (mapRing2Mesh su) (cellAreas su) (halfRing (ringCluster su))
             T (relHumidity_i su > 100) (liquidAer (epm su)) (iceAer (epm su))
             (Soot_den (epm su) * areaPlume (epm su) / (ringArea su ! 0)))"
  by (simp add: PlumeModel_init_def init_rings_def Let_def)

lemma init_transport_flags:
  "TRANSPORT_LA (fst (PlumeModel_init c x locals0 T P RHw lon lat))
     \<longleftrightarrow> Moment x (liquidAer (epm (fst (PlumeModel_init c x locals0 T P RHw lon lat)))) \<noteq> 0"
  "TRANSPORT_PA (fst (PlumeModel_init c x locals0 T P RHw lon lat))
     \<longleftrightarrow> Ice_den (epm (fst (PlumeModel_init c x locals0 T P RHw lon lat))) \<noteq> 0"
  by (simp_all add: PlumeModel_init_def Let_def LA_MICROPHYSICS_of_def PA_MICROPHYSICS_of_def)

section \<open>Which aerosol bins the transport solves\<close>

lemma filter_rev_map_LA:
  "filter is_LA_solve (rev (map (\<lambda>k. Call_Solve (f k) (LA_pdf k)) ks))
     = rev (map (\<lambda>k. Call_Solve (f k) (LA_pdf k)) ks)"
  "filter is_PA_solve (rev (map (\<lambda>k. Call_Solve (f k) (LA_pdf k)) ks)) = []"
  "filter is_PA_solve (rev (map (\<lambda>k. Call_Solve (f k) (PA_pdf k)) ks))
     = rev (map (\<lambda>k. Call_Solve (f k) (PA_pdf k)) ks)"
  "filter is_LA_solve (rev (map (\<lambda>k. Call_Solve (f k) (PA_pdf k)) ks)) = []"
  by (induction ks) simp_all

lemma demo_init:
  "PlumeModel_init demo_config demo_extern demo_locals 220 24000 60 0 60 = (demo_prep, demo_state)"
  by (simp add: demo_prep_def demo_state_def)

lemma clean_init:
  "PlumeModel_init demo_config clean_extern demo_locals 220 24000 60 0 60 = (clean_prep, clean_state)"
  by (simp add: clean_prep_def clean_state_def)





section \<open>SO4 partitioning\<close>






section \<open>A failure of the chemistry\<close>



section \<open>When the coagulation is called\<close>



section \<open>The scaling with the number of engines\<close>

text \<open>
  C5. With a number of engines other than 2, what the driver keeps of the outputs of the
  early plume microphysics is: the ice and the soot number densities and the two size
  distributions, each multiplied by half the number of engines, and the area of the plume,
  doubled. The semi-axis of the plume is computed from the doubled area, and with rings it
  is the scaled distributions and the scaled soot density times the doubled area that
  \<^verbatim>\<open>addEmission\<close> puts into the grid.
\<close>

theorem engine_scaling:
  assumes "PlumeModel_init c x locals0 T P RHw lon lat = (su, st0)"
    and "getEngNumber (aircraft su) \<noteq> 2"
  shows "let raw = EPM_Integrate x T P RHw (varArray st0) (fixArray st0) (aerArray st0)
                     (aircraft su) (EI su);
             k = real (getEngNumber (aircraft su)) / 2
         in Ice_den (epm su) = Ice_den raw * k
          \<and> Soot_den (epm su) = Soot_den raw * k
          \<and> bin_pdf (liquidAer (epm su)) = map (\<lambda>v. v * k) (bin_pdf (liquidAer raw))
          \<and> bin_pdf (iceAer (epm su)) = map (\<lambda>v. v * k) (bin_pdf (iceAer raw))
          \<and> areaPlume (epm su) = 2 * areaPlume raw
          \<and> semiXaxis su
              = areaPlume (epm su) / (physConst_PI x * 0.5 * getVortexdeltaz1 (aircraft su))
          \<and> (RINGS c \<longrightarrow>
               Data st0 = addEmission x (Solution_Initialize x T P (airDens su) RHw lat (Met su))
                            (EI su) (aircraft su) (mapRing2Mesh su) (cellAreas su)
                            (halfRing (ringCluster su)) T (relHumidity_i su > 100)
                            (liquidAer (epm su)) (iceAer (epm su))
                            (Soot_den (epm su) * areaPlume (epm su) / (ringArea su ! 0)))"
proof -
  from assms(1) have su: "su = fst (PlumeModel_init c x locals0 T P RHw lon lat)"
    and st0: "st0 = snd (PlumeModel_init c x locals0 T P RHw lon lat)" by simp_all
  have e: "epm su = scale_EPM (aircraft su)
             (EPM_Integrate x T P RHw (varArray st0) (fixArray st0) (aerArray st0)
                (aircraft su) (EI su))"
    unfolding su st0 by (rule init_epm)
  have axis: "semiXaxis su
                = areaPlume (epm su) / (physConst_PI x * 0.5 * getVortexdeltaz1 (aircraft su))"
    unfolding su by (rule init_semiXaxis)
  have grid: "RINGS c \<Longrightarrow>
               Data st0 = addEmission x (Solution_Initialize x T P (airDens su) RHw lat (Met su))
                            (EI su) (aircraft su) (mapRing2Mesh su) (cellAreas su)
                            (halfRing (ringCluster su)) T (relHumidity_i su > 100)
                            (liquidAer (epm su)) (iceAer (epm su))
                            (Soot_den (epm su) * areaPlume (epm su) / (ringArea su ! 0))"
    unfolding su st0 using init_Data_rings[of c x locals0 T P RHw lon lat] by (simp add: Let_def)
  show ?thesis
    unfolding Let_def
    using scale_EPM_other_engines[OF assms(2), of "EPM_Integrate x T P RHw (varArray st0)
        (fixArray st0) (aerArray st0) (aircraft su) (EI su)"] axis grid
    by (simp add: e[symmetric])
qed

theorem engine_scaling_witness:
  "PlumeModel_init demo_config demo_extern demo_locals 220 24000 60 0 60 = (demo_prep, demo_state)
   \<and> getEngNumber (aircraft demo_prep) \<noteq> 2
   \<and> (let raw = EPM_Integrate demo_extern 220 24000 60 (varArray demo_state) (fixArray demo_state)
                   (aerArray demo_state) (aircraft demo_prep) (EI demo_prep);
           k = real (getEngNumber (aircraft demo_prep)) / 2
       in Ice_den (epm demo_prep) = Ice_den raw * k
        \<and> Soot_den (epm demo_prep) = Soot_den raw * k
        \<and> bin_pdf (liquidAer (epm demo_prep)) = map (\<lambda>v. v * k) (bin_pdf (liquidAer raw))
        \<and> bin_pdf (iceAer (epm demo_prep)) = map (\<lambda>v. v * k) (bin_pdf (iceAer raw))
        \<and> areaPlume (epm demo_prep) = 2 * areaPlume raw
        \<and> semiXaxis demo_prep
            = areaPlume (epm demo_prep)
              / (physConst_PI demo_extern * 0.5 * getVortexdeltaz1 (aircraft demo_prep))
        \<and> RINGS demo_config
        \<and> Data demo_state
            = addEmission demo_extern
                (Solution_Initialize demo_extern 220 24000 (airDens demo_prep) 60 60 (Met demo_prep))
                (EI demo_prep) (aircraft demo_prep) (mapRing2Mesh demo_prep) (cellAreas demo_prep)
                (halfRing (ringCluster demo_prep)) 220 (relHumidity_i demo_prep > 100)
                (liquidAer (epm demo_prep)) (iceAer (epm demo_prep))
                (Soot_den (epm demo_prep) * areaPlume (epm demo_prep) / (ringArea demo_prep ! 0)))"
proof -
  have engines: "getEngNumber (aircraft demo_prep) \<noteq> 2" by code_simp
  have rings: "RINGS demo_config" by (simp add: demo_config_def)
  from engine_scaling[OF demo_init engines] rings demo_init engines
  show ?thesis by (simp add: Let_def)
qed

section \<open>The NOy mass check\<close>

text \<open>
  C6. With the NOy mass check compiled in, the emitted NOy that a step computes is the sum
  over the cells of the mesh of the NOy of the cell less the NOy of the ambient (at the
  time index that the step fills in), times the area of the cell, where NOy is the sum over
  its members with N2O5 and N2O counted twice and every other member once.
\<close>

theorem NOy_emitted_column:
  assumes "NOy_MASS_CHECK c"
  shows "mass_Emitted_NOy (NOy_mass_check c su st) =
           (\<Sum>i<NX c. \<Sum>j<NY c.
              (weighted_NOy (\<lambda>s. get2D (spc (Data st) s) j i)
               - weighted_NOy (\<lambda>s. amb (ambientData st) s ! (nTime st + 1)))
              * get2D (cellAreas su) j i)"
  using assms
  by (simp add: NOy_mass_check_def Let_def counters_after_def emitted_NOy_sum cell_NOy_def
      ambient_NOy_def NOy_weighted)

theorem NOy_emitted_column_witness:
  "NOy_MASS_CHECK demo_config
   \<and> mass_Emitted_NOy (NOy_mass_check demo_config demo_prep demo_state) =
       (\<Sum>i<NX demo_config. \<Sum>j<NY demo_config.
          (weighted_NOy (\<lambda>s. get2D (spc (Data demo_state) s) j i)
           - weighted_NOy (\<lambda>s. amb (ambientData demo_state) s ! (nTime demo_state + 1)))
          * get2D (cellAreas demo_prep) j i)"
proof -
  have on: "NOy_MASS_CHECK demo_config" by (simp add: demo_config_def)
  from NOy_emitted_column[OF on, of demo_prep demo_state] on show ?thesis by simp
qed

section \<open>The photolysis rates at night\<close>

text \<open>
  C7. In a step in which the cosine of the solar zenith angle, as \<^verbatim>\<open>sun.Update\<close> leaves
  it, is zero (or negative), the chemistry starts with every entry of \<^verbatim>\<open>PHOTOL\<close> at
  zero, \<^verbatim>\<open>Read_JRates\<close> has not been called in the step, and the chemistry, whether it
  runs to its end or returns on a failure, leaves \<^verbatim>\<open>PHOTOL\<close> at zero. \<^verbatim>\<open>PHOTOL\<close> has
  \<^verbatim>\<open>NPHOTOL\<close> entries.
\<close>

theorem night_photolysis:
  assumes "length (PHOTOL st) = NPHOTOL c"
    and "CSZA (SZA_Update x (sun st) (curr_Time_s st)) \<le> 0"
  shows "CSZA (sun (before_chemistry c x su st)) = CSZA (SZA_Update x (sun st) (curr_Time_s st))
       \<and> PHOTOL (before_chemistry c x su st) = replicate (NPHOTOL c) 0
       \<and> \<not> list_ex is_Read_JRates (step_calls st (before_chemistry c x su st))
       \<and> (case chemistry c x su (before_chemistry c x su st) of
            Inl f \<Rightarrow> PHOTOL f | Inr s \<Rightarrow> PHOTOL s) = replicate (NPHOTOL c) 0"
proof -
  have zero: "PHOTOL (before_chemistry c x su st) = replicate (NPHOTOL c) 0"
    using assms by (simp add: PHOTOL_before_chemistry clear_n_all)
  have "step_calls st (before_chemistry c x su st) = before_calls c x su st"
    by (simp add: step_calls_def calls_before_chemistry)
  moreover have "\<not> list_ex is_Read_JRates (before_calls c x su st)"
    using assms(2) no_Read_JRates_SANDS[of c x su]
    by (simp add: before_calls_def Let_def list_ex_iff list_all_iff)
  ultimately show ?thesis
    by (simp add: zero PHOTOL_chemistry before_chemistry_frame)
qed

theorem night_photolysis_witness:
  "length (PHOTOL demo_state) = NPHOTOL demo_config
   \<and> CSZA (SZA_Update demo_extern (sun demo_state) (curr_Time_s demo_state)) \<le> 0
   \<and> CSZA (sun (before_chemistry demo_config demo_extern demo_prep demo_state))
       = CSZA (SZA_Update demo_extern (sun demo_state) (curr_Time_s demo_state))
   \<and> PHOTOL (before_chemistry demo_config demo_extern demo_prep demo_state)
       = replicate (NPHOTOL demo_config) 0
   \<and> \<not> list_ex is_Read_JRates
         (step_calls demo_state (before_chemistry demo_config demo_extern demo_prep demo_state))
   \<and> (case chemistry demo_config demo_extern demo_prep
              (before_chemistry demo_config demo_extern demo_prep demo_state) of
         Inl f \<Rightarrow> PHOTOL f | Inr s \<Rightarrow> PHOTOL s) = replicate (NPHOTOL demo_config) 0"
proof -
  have len: "length (PHOTOL demo_state) = NPHOTOL demo_config" by code_simp
  have night: "CSZA (SZA_Update demo_extern (sun demo_state) (curr_Time_s demo_state)) \<le> 0"
    by code_simp
  from night_photolysis[OF len night, of demo_prep] len night show ?thesis by blast
qed

section \<open>The transport of the aerosol bins\<close>

text \<open>
  C8, as stated: the bins of the liquid aerosol are not transported exactly when the early
  plume emits no sulfate aerosol and the background holds no liquid aerosol. It fails in the
  configuration whose early plume emits none while the background number density is 5: the
  transport is compiled in, the liquid aerosol has bins, and no bin is solved.
\<close>

theorem aerosol_transport_gate_counterexample:
  "(DIFFUSION demo_config \<or> ADVECTION demo_config)
   \<and> 0 < nBin_LA (Transport clean_extern (Data clean_state) (SANDS_GasPhase clean_state))
   \<and> filter is_LA_solve (step_calls clean_state (SANDS demo_config clean_extern clean_prep clean_state)) = []
   \<and> \<not> (Moment clean_extern (liquidAer (epm clean_prep)) = 0
         \<and> LA_nDens (Solution_Initialize clean_extern 220 24000 (airDens clean_prep) 60 60
                       (Met clean_prep)) = 0)"
  by code_simp

text \<open>
  C8, amended: the transport flag of the liquid aerosol is set exactly when the zeroth moment
  of the liquid distribution of the early plume (as the driver has scaled it) is not zero,
  and the one of the solid aerosol exactly when the ice number density of the early plume is
  not zero; the background densities play no part. In a step, the transport section solves
  every bin of the liquid aerosol, in turn, when the section is compiled in and that moment
  is not zero, and no bin of it otherwise; the same holds of the solid aerosol with the
  ice number density, each bin with its settling velocity.
\<close>

theorem aerosol_transport_gate:
  assumes "PlumeModel_init c x locals0 T P RHw lon lat = (su, st0)"
  shows "(TRANSPORT_LA su \<longleftrightarrow> Moment x (liquidAer (epm su)) \<noteq> 0)
       \<and> (TRANSPORT_PA su \<longleftrightarrow> Ice_den (epm su) \<noteq> 0)
       \<and> filter is_LA_solve (step_calls st (SANDS c x su st))
           = (if (DIFFUSION c \<or> ADVECTION c) \<and> Moment x (liquidAer (epm su)) \<noteq> 0
              then rev (map (\<lambda>k. Call_Solve (UpdateAdv (SANDS_MicroPhys st) 0 0) (LA_pdf k))
                          [0..<nBin_LA (Transport x (Data st) (SANDS_GasPhase st))])
              else [])
       \<and> filter is_PA_solve (step_calls st (SANDS c x su st))
           = (if (DIFFUSION c \<or> ADVECTION c) \<and> Ice_den (epm su) \<noteq> 0
              then rev (map (\<lambda>k. Call_Solve (UpdateAdv (SANDS_MicroPhys st) 0 (vFall su ! k))
                                   (PA_pdf k))
                          [0..<nBin_PA (Transport x (Data st) (SANDS_GasPhase st))])
              else [])"
proof -
  from assms have su: "su = fst (PlumeModel_init c x locals0 T P RHw lon lat)" by simp
  have flags: "TRANSPORT_LA su \<longleftrightarrow> Moment x (liquidAer (epm su)) \<noteq> 0"
    "TRANSPORT_PA su \<longleftrightarrow> Ice_den (epm su) \<noteq> 0"
    unfolding su by (rule init_transport_flags)+
  have new: "step_calls st (SANDS c x su st) = SANDS_calls c x su st"
    by (simp add: step_calls_def calls_SANDS)
  show ?thesis
    unfolding new
    by (simp add: flags[symmetric] SANDS_calls_def Let_def filter_rev_map_LA UpdateAdv_twice)
qed

theorem aerosol_transport_gate_witness:
  "PlumeModel_init demo_config demo_extern demo_locals 220 24000 60 0 60 = (demo_prep, demo_state)
   \<and> (TRANSPORT_LA demo_prep \<longleftrightarrow> Moment demo_extern (liquidAer (epm demo_prep)) \<noteq> 0)
   \<and> (TRANSPORT_PA demo_prep \<longleftrightarrow> Ice_den (epm demo_prep) \<noteq> 0)
   \<and> filter is_LA_solve (step_calls demo_state (SANDS demo_config demo_extern demo_prep demo_state))
       = (if (DIFFUSION demo_config \<or> ADVECTION demo_config)
             \<and> Moment demo_extern (liquidAer (epm demo_prep)) \<noteq> 0
          then rev (map (\<lambda>k. Call_Solve (UpdateAdv (SANDS_MicroPhys demo_state) 0 0) (LA_pdf k))
                      [0..<nBin_LA (Transport demo_extern (Data demo_state) (SANDS_GasPhase demo_state))])
          else [])
   \<and> filter is_PA_solve (step_calls demo_state (SANDS demo_config demo_extern demo_prep demo_state))
       = (if (DIFFUSION demo_config \<or> ADVECTION demo_config) \<and> Ice_den (epm demo_prep) \<noteq> 0
          then rev (map (\<lambda>k. Call_Solve (UpdateAdv (SANDS_MicroPhys demo_state) 0 (vFall demo_prep ! k))
                               (PA_pdf k))
                      [0..<nBin_PA (Transport demo_extern (Data demo_state) (SANDS_GasPhase demo_state))])
          else [])"
  using aerosol_transport_gate[OF demo_init, of demo_state] demo_init by blast

section \<open>No advection but the settling\<close>

text \<open>
  C9. Whatever the number of steps taken, every call of \<^verbatim>\<open>Transport\<close> with the gas-phase
  solver and every call of \<^verbatim>\<open>Solve\<close> with the microphysics solver has found the velocity
  of the solver at \<open>(0, 0)\<close>, but for the bins of the solid aerosol, where it was
  \<open>(0, vFall[iBin_PA])\<close>. And the driver does the same with any other \<^verbatim>\<open>AdvGlobal\<close>:
  the same status, the same calls and the same state, but for the four locals that
  \<^verbatim>\<open>AdvGlobal\<close> writes.
\<close>

theorem advection_never_applied:
  "list_all (velocity_ok (vFall (fst (PlumeModel_init c x locals0 T P RHw lon lat))))
     (calls (final (PlumeModel fuel c x locals0 T P RHw lon lat)))
   \<and> map_outcome no_adv (PlumeModel fuel c (x\<lparr>AdvGlobal := g\<rparr>) locals0 T P RHw lon lat)
       = map_outcome no_adv (PlumeModel fuel c x locals0 T P RHw lon lat)"
  using velocities_of_all_calls[of c x locals0 T P RHw lon lat fuel]
    no_adv_PlumeModel[of fuel c g x locals0 T P RHw lon lat]
  by simp

theorem advection_never_applied_witness:
  "list_all (velocity_ok (vFall (fst (PlumeModel_init demo_config demo_extern demo_locals 220 24000 60 0 60))))
     (calls (final (PlumeModel 2 demo_config demo_extern demo_locals 220 24000 60 0 60)))
   \<and> map_outcome no_adv
       (PlumeModel 2 demo_config (demo_extern\<lparr>AdvGlobal := (\<lambda>t a. (0, 0, 0, 0))\<rparr>) demo_locals
          220 24000 60 0 60)
       = map_outcome no_adv (PlumeModel 2 demo_config demo_extern demo_locals 220 24000 60 0 60)"
  by (rule advection_never_applied)

section \<open>The symmetry arguments of the coagulation\<close>

text \<open>
  C10. Whatever the number of steps taken, every call of the coagulation of the liquid
  aerosol has passed the symmetry argument 2, and every call of the coagulation of the
  solid aerosol has passed 1 when the relative humidity with respect to ice, computed once
  from the arguments of \<^verbatim>\<open>PlumeModel\<close>, exceeds 100, and 2 otherwise.
\<close>

theorem coagulation_symmetry:
  "list_all (sym_ok (RHw * pSat_H2Ol x T / pSat_H2Os x T > 100))
     (calls (final (PlumeModel fuel c x locals0 T P RHw lon lat)))"
  by (rule PlumeModel_calls) (simp_all add: ice_sym_def init_relHumidity_i)

theorem coagulation_symmetry_witness:
  "list_all (sym_ok (60 * pSat_H2Ol demo_extern 220 / pSat_H2Os demo_extern 220 > 100))
     (calls (final (PlumeModel 2 demo_config demo_extern demo_locals 220 24000 60 0 60)))"
  by (rule coagulation_symmetry)

end
